theory Spec2Isabelle
  imports Complex_Main
begin

section \<open>Python strings\<close>

text \<open>
  Strings are lists of characters with code points below 256. The three string
  methods the code relies on are \<open>str.lower\<close>, \<open>str.split\<close> without argument and
  \<open>str.strip\<close> without argument.
\<close>

datatype py_error = ZeroDivisionError

definition is_space :: "char \<Rightarrow> bool" where
  "is_space c =
     (let n = (of_char c :: nat)
      in (9 \<le> n \<and> n \<le> 13) \<or> (28 \<le> n \<and> n \<le> 32) \<or> n = 133 \<or> n = 160)"

definition lower_char :: "char \<Rightarrow> char" where
  "lower_char c =
     (let n = (of_char c :: nat)
      in if (65 \<le> n \<and> n \<le> 90) \<or> (192 \<le> n \<and> n \<le> 222 \<and> n \<noteq> 215)
         then char_of (n + 32) else c)"

definition lower :: "string \<Rightarrow> string" where
  "lower s = map lower_char s"

text \<open>\<open>split_acc cur s\<close>: \<open>cur\<close> is the word being read, reversed.\<close>

fun split_acc :: "string \<Rightarrow> string \<Rightarrow> string list" where
  "split_acc cur [] = (if cur = [] then [] else [rev cur])"
| "split_acc cur (c # cs) =
     (if is_space c
      then (if cur = [] then split_acc [] cs else rev cur # split_acc [] cs)
      else split_acc (c # cur) cs)"

definition split :: "string \<Rightarrow> string list" where
  "split s = split_acc [] s"

definition strip :: "string \<Rightarrow> string" where
  "strip s = rev (dropWhile is_space (rev (dropWhile is_space s)))"

text \<open>\<open>xs[:k]\<close> for a Python integer \<open>k\<close> (a negative \<open>k\<close> counts from the end).\<close>

definition py_take :: "int \<Rightarrow> 'a list \<Rightarrow> 'a list" where
  "py_take k xs = (if 0 \<le> k then take (nat k) xs else take (length xs - nat (- k)) xs)"

section \<open>advanced\_memory\_manager.py\<close>

subsection \<open>Data\<close>

datatype memory_type = Session | Long_term

datatype sentiment = Positive | Negative | Neutral

type_synonym context_dict = "(string \<times> string) list"

text \<open>
  A timestamp is a \<open>datetime\<close>, counted in microseconds; \<open>isoformat\<close> and
  \<open>fromisoformat\<close> are inverse to each other on it.
\<close>

record memory_entry =
  m_session_id :: string
  m_user_id :: string
  m_user_message :: string
  m_assistant_response :: string
  m_timestamp :: int
  m_context :: context_dict
  m_memory_type :: memory_type
  m_relevance_score :: real
  m_keywords :: "string list"
  m_sentiment :: sentiment
  m_promoted_at :: "int option"

record sentiment_distribution =
  n_positive :: nat
  n_negative :: nat
  n_neutral :: nat

record preferences =
  response_length :: string
  technical_level :: string
  emotion_support :: bool

record user_profile =
  p_user_id :: string
  total_conversations :: nat
  total_messages :: nat
  health_interests :: "string \<rightharpoonup> nat"
  p_sentiment_distribution :: sentiment_distribution
  personality_traits :: "(string \<times> string) list"
  conversation_style :: string
  last_interaction :: int
  p_preferences :: preferences

record flow_item =
  f_timestamp :: int
  f_user_message :: string
  f_sentiment :: sentiment

record conversation_context =
  current_topic :: string
  conversation_flow :: "flow_item list"
  user_preferences :: "string set"
  assistant_responses :: "string list"

record memory_manager =
  session_memories :: "string \<rightharpoonup> memory_entry list"
  long_term_memories :: "memory_entry list"
  user_profiles :: "string \<rightharpoonup> user_profile"
  conversation_contexts :: "string \<rightharpoonup> conversation_context"
  max_context_window :: nat
  memory_retention_days :: int
  relevance_threshold :: real

text \<open>
  The readings of \<open>datetime.now()\<close> made during one call of
  \<open>add_session_memory\<close>, in the order the code makes them.
\<close>

record clock =
  now_entry :: int
  now_profile :: int
  now_promote :: int
  now_cleanup :: int

text \<open>The manager as \<open>__init__\<close> leaves it when nothing is stored on disk.\<close>

definition new_manager :: memory_manager where
  "new_manager =
     \<lparr>session_memories = Map.empty, long_term_memories = [],
      user_profiles = Map.empty, conversation_contexts = Map.empty,
      max_context_window = 10, memory_retention_days = 30,
      relevance_threshold = 7 / 10\<rparr>"

subsection \<open>Scoring a message\<close>

definition health_keywords :: "string list" where
  "health_keywords =
     [''health'', ''medical'', ''doctor'', ''symptom'', ''treatment'',
      ''medicine'', ''pain'', ''fever'', ''cough'', ''headache'']"

definition calculate_relevance_score :: "string \<Rightarrow> py_error + real" where
  "calculate_relevance_score text =
     (let words = split (lower text);
          keyword_count = length (filter (\<lambda>word. word \<in> set health_keywords) words)
      in if length words = 0 then Inl ZeroDivisionError
         else Inr (min 1 (real keyword_count / real (length words) * 2
                          + real (length words) / 50)))"

definition stop_words :: "string list" where
  "stop_words =
     [''the'', ''a'', ''an'', ''and'', ''or'', ''but'', ''in'', ''on'', ''at'',
      ''to'', ''for'', ''of'', ''with'', ''by'']"

definition extract_keywords :: "string \<Rightarrow> string list" where
  "extract_keywords text =
     take 10 (filter (\<lambda>word. word \<notin> set stop_words \<and> length word > 2)
                (split (lower text)))"

definition positive_words :: "string list" where
  "positive_words =
     [''good'', ''great'', ''excellent'', ''happy'', ''better'', ''improved'', ''helpful'']"

definition negative_words :: "string list" where
  "negative_words =
     [''bad'', ''terrible'', ''pain'', ''hurt'', ''sick'', ''worried'', ''anxious'',
      ''depressed'']"

definition analyze_sentiment :: "string \<Rightarrow> sentiment" where
  "analyze_sentiment text =
     (let words = split (lower text);
          positive_count = length (filter (\<lambda>word. word \<in> set positive_words) words);
          negative_count = length (filter (\<lambda>word. word \<in> set negative_words) words)
      in if positive_count > negative_count then Positive
         else if negative_count > positive_count then Negative
         else Neutral)"

subsection \<open>Conversation context and user profile\<close>

definition update_conversation_context ::
  "string \<Rightarrow> memory_entry \<Rightarrow> memory_manager \<Rightarrow> memory_manager" where
  "update_conversation_context session_id memory_entry st =
     (let ctx0 = (case conversation_contexts st session_id of
                    None \<Rightarrow> \<lparr>current_topic = [], conversation_flow = [],
                             user_preferences = {}, assistant_responses = []\<rparr>
                  | Some c \<Rightarrow> c);
          ctx1 = (case m_keywords memory_entry of
                    [] \<Rightarrow> ctx0
                  | k # _ \<Rightarrow> ctx0\<lparr>current_topic := k\<rparr>);
          flow = conversation_flow ctx1 @
                   [\<lparr>f_timestamp = m_timestamp memory_entry,
                     f_user_message = take 50 (m_user_message memory_entry) @ ''...'',
                     f_sentiment = m_sentiment memory_entry\<rparr>];
          ctx2 = ctx1\<lparr>conversation_flow :=
                   (if length flow > 20 then drop (length flow - 20) flow else flow)\<rparr>
      in st\<lparr>conversation_contexts := (conversation_contexts st)(session_id \<mapsto> ctx2)\<rparr>)"

definition create_default_profile :: "int \<Rightarrow> user_profile" where
  "create_default_profile now =
     \<lparr>p_user_id = ''anonymous'',
      total_conversations = 0,
      total_messages = 0,
      health_interests = Map.empty,
      p_sentiment_distribution = \<lparr>n_positive = 0, n_negative = 0, n_neutral = 0\<rparr>,
      personality_traits = [],
      conversation_style = ''formal'',
      last_interaction = now,
      p_preferences = \<lparr>response_length = ''medium'', technical_level = ''general'',
                        emotion_support = True\<rparr>\<rparr>"

definition count_interest :: "string \<Rightarrow> (string \<rightharpoonup> nat) \<Rightarrow> (string \<rightharpoonup> nat)" where
  "count_interest keyword interests =
     (case interests keyword of
        Some n \<Rightarrow> interests(keyword \<mapsto> n + 1)
      | None \<Rightarrow> interests(keyword \<mapsto> 1))"

definition count_sentiment :: "sentiment \<Rightarrow> sentiment_distribution \<Rightarrow> sentiment_distribution" where
  "count_sentiment s d =
     (case s of
        Positive \<Rightarrow> d\<lparr>n_positive := n_positive d + 1\<rparr>
      | Negative \<Rightarrow> d\<lparr>n_negative := n_negative d + 1\<rparr>
      | Neutral \<Rightarrow> d\<lparr>n_neutral := n_neutral d + 1\<rparr>)"

definition update_user_profile ::
  "int \<Rightarrow> string \<Rightarrow> memory_entry \<Rightarrow> memory_manager \<Rightarrow> memory_manager" where
  "update_user_profile now user_id memory_entry st =
     (let profile = (case user_profiles st user_id of
                       None \<Rightarrow> create_default_profile now
                     | Some p \<Rightarrow> p);
          profile = profile\<lparr>total_conversations := total_conversations profile + 1\<rparr>;
          profile = profile\<lparr>total_messages := total_messages profile + 1\<rparr>;
          profile = profile\<lparr>health_interests :=
                      fold count_interest (m_keywords memory_entry) (health_interests profile)\<rparr>;
          profile = profile\<lparr>p_sentiment_distribution :=
                      count_sentiment (m_sentiment memory_entry) (p_sentiment_distribution profile)\<rparr>;
          profile = profile\<lparr>last_interaction := m_timestamp memory_entry\<rparr>
      in st\<lparr>user_profiles := (user_profiles st)(user_id \<mapsto> profile)\<rparr>)"

subsection \<open>Promotion and retention\<close>

definition important_keywords :: "string list" where
  "important_keywords =
     [''emergency'', ''symptom'', ''treatment'', ''medication'', ''diagnosis'']"

definition should_promote_to_long_term :: "memory_entry \<Rightarrow> bool" where
  "should_promote_to_long_term memory_entry =
     (let has_important_keywords =
            list_ex (\<lambda>keyword. keyword \<in> set important_keywords) (m_keywords memory_entry)
      in m_relevance_score memory_entry > 8 / 10 \<or> has_important_keywords)"

definition promote_to_long_term ::
  "int \<Rightarrow> memory_entry \<Rightarrow> memory_manager \<Rightarrow> memory_manager" where
  "promote_to_long_term now memory_entry st =
     (let long_term_entry = memory_entry\<lparr>m_memory_type := Long_term, m_promoted_at := Some now\<rparr>
      in st\<lparr>long_term_memories := long_term_memories st @ [long_term_entry]\<rparr>)"

text \<open>\<open>timedelta(days=d)\<close> in microseconds.\<close>

definition timedelta_days :: "int \<Rightarrow> int" where
  "timedelta_days d = d * 86400000000"

text \<open>
  The loop over \<open>list(self.session_memories.keys())\<close> visits every key once and
  reads and writes only the entry of that key, so it is one pointwise update of the map.
\<close>

definition cleanup_old_memories :: "int \<Rightarrow> memory_manager \<Rightarrow> memory_manager" where
  "cleanup_old_memories now st =
     (let cutoff_date = now - timedelta_days (memory_retention_days st);
          keep = (\<lambda>memory. m_timestamp memory > cutoff_date)
      in st\<lparr>session_memories :=
              (\<lambda>session_id.
                 case session_memories st session_id of
                   None \<Rightarrow> None
                 | Some memories \<Rightarrow>
                     (let filtered_memories = filter keep memories
                      in if filtered_memories \<noteq> [] then Some filtered_memories else None)),
            long_term_memories := filter keep (long_term_memories st)\<rparr>)"

subsection \<open>Recording a turn\<close>

text \<open>The dictionary \<open>memory_entry\<close> that \<open>add_session_memory\<close> builds first.\<close>

definition new_memory_entry ::
  "clock \<Rightarrow> string \<Rightarrow> string \<Rightarrow> string \<Rightarrow> context_dict option \<Rightarrow> string option
     \<Rightarrow> real \<Rightarrow> memory_entry" where
  "new_memory_entry clk session_id user_message assistant_response context user_id relevance =
     \<lparr>m_session_id = session_id,
      m_user_id = (case user_id of None \<Rightarrow> ''anonymous''
                   | Some u \<Rightarrow> if u = [] then ''anonymous'' else u),
      m_user_message = user_message,
      m_assistant_response = assistant_response,
      m_timestamp = now_entry clk,
      m_context = (case context of None \<Rightarrow> [] | Some c \<Rightarrow> c),
      m_memory_type = Session,
      m_relevance_score = relevance,
      m_keywords = extract_keywords user_message,
      m_sentiment = analyze_sentiment user_message,
      m_promoted_at = None\<rparr>"

text \<open>
  The relevance score is computed while the entry is built, before anything is stored:
  when it raises, the manager is left as it was.
\<close>

definition add_session_memory ::
  "clock \<Rightarrow> string \<Rightarrow> string \<Rightarrow> string \<Rightarrow> context_dict option \<Rightarrow> string option
     \<Rightarrow> memory_manager \<Rightarrow> py_error + memory_manager" where
  "add_session_memory clk session_id user_message assistant_response context user_id st =
     (case calculate_relevance_score user_message of
        Inl e \<Rightarrow> Inl e
      | Inr relevance \<Rightarrow>
          (let memory_entry = new_memory_entry clk session_id user_message assistant_response
                                context user_id relevance;
               st = st\<lparr>session_memories :=
                        (session_memories st)(session_id \<mapsto>
                           (case session_memories st session_id of
                              None \<Rightarrow> [] | Some memories \<Rightarrow> memories) @ [memory_entry])\<rparr>;
               st = update_conversation_context session_id memory_entry st;
               st = (case user_id of
                       None \<Rightarrow> st
                     | Some u \<Rightarrow> if u = [] then st
                                 else update_user_profile (now_profile clk) u memory_entry st);
               st = (if should_promote_to_long_term memory_entry
                     then promote_to_long_term (now_promote clk) memory_entry st
                     else st)
           in Inr (cleanup_old_memories (now_cleanup clk) st)))"

subsection \<open>Retrieval of long-term memories\<close>

text \<open>A returned memory is a copy of the entry with its \<open>similarity_score\<close>.\<close>

definition similarity_score :: "string list \<Rightarrow> real \<Rightarrow> memory_entry \<Rightarrow> real" where
  "similarity_score query_keywords query_relevance memory =
     (let keyword_overlap = card (set query_keywords \<inter> set (m_keywords memory));
          relevance_similarity = 1 - \<bar>query_relevance - m_relevance_score memory\<bar>
      in real keyword_overlap * (6 / 10) + relevance_similarity * (4 / 10))"

definition get_relevant_long_term_memories ::
  "string \<Rightarrow> string option \<Rightarrow> int \<Rightarrow> memory_manager
     \<Rightarrow> py_error + (memory_entry \<times> real) list" where
  "get_relevant_long_term_memories query user_id limit st =
     (let query_keywords = extract_keywords query
      in case calculate_relevance_score query of
           Inl e \<Rightarrow> Inl e
         | Inr query_relevance \<Rightarrow>
             (let visited = filter (\<lambda>memory.
                                \<not> (user_id \<noteq> None \<and> user_id \<noteq> Some []
                                   \<and> Some (m_user_id memory) \<noteq> user_id))
                              (long_term_memories st);
                  scored = map (\<lambda>memory.
                                  (memory, similarity_score query_keywords query_relevance memory))
                               visited;
                  relevant_memories = filter (\<lambda>(memory, s). s \<ge> relevance_threshold st) scored
              in Inr (py_take limit (sort_key (\<lambda>(memory, s). - s) relevant_memories))))"

subsection \<open>Erasing a user\<close>

definition clear_user_data :: "string \<Rightarrow> memory_manager \<Rightarrow> memory_manager" where
  "clear_user_data user_id st =
     (let keep = (\<lambda>memory. m_user_id memory \<noteq> user_id)
      in st\<lparr>user_profiles := (user_profiles st)(user_id := None),
            long_term_memories := filter keep (long_term_memories st),
            session_memories :=
              (\<lambda>session_id.
                 case session_memories st session_id of
                   None \<Rightarrow> None
                 | Some memories \<Rightarrow>
                     (let filtered_memories = filter keep memories
                      in if filtered_memories \<noteq> [] then Some filtered_memories else None))\<rparr>)"

section \<open>advanced\_knowledge\_base.py\<close>

text \<open>
  The knowledge base is modelled in its fallback mode (\<open>embedding_model\<close> is None),
  with the configuration \<open>__init__\<close> sets; no other statement of the repository
  assigns these attributes in that mode.
\<close>

definition embedding_dimension :: nat where
  "embedding_dimension = 384"

definition chunk_size :: nat where
  "chunk_size = 512"

definition chunk_overlap :: nat where
  "chunk_overlap = 50"

definition max_chunks_per_document :: nat where
  "max_chunks_per_document = 10"

definition kb_relevance_threshold :: real where
  "kb_relevance_threshold = 6 / 10"

definition weight_semantic :: real where
  "weight_semantic = 7 / 10"

definition weight_keyword :: real where
  "weight_keyword = 2 / 10"

definition weight_category :: real where
  "weight_category = 1 / 10"

subsection \<open>Data\<close>

record document =
  d_id :: string
  d_title :: string
  d_content :: string
  d_category :: string
  d_source :: string
  d_tags :: "string list"
  d_added_at :: int
  d_word_count :: nat
  d_char_count :: nat

text \<open>
  A chunk as a chunker returns it. The keys that only some chunkers set are optional.
  \<open>c_category\<close> is the key \<open>'category'\<close>, which \<open>search_knowledge\<close> and
  \<open>_category_similarity\<close> read with \<open>.get\<close>: no chunker sets it.
\<close>

record chunk =
  c_content :: string
  c_title :: string
  c_chunk_type :: string
  c_sentence_count :: "nat option"
  c_paragraph_index :: "nat option"
  c_start_pos :: "nat option"
  c_end_pos :: "nat option"
  c_category :: "string option"

text \<open>A chunk of \<open>self.chunks\<close>: \<open>add_document\<close> has set the three keys below.\<close>

record stored_chunk = chunk +
  c_id :: string
  c_document_id :: string
  c_chunk_index :: nat

record doc_metadata =
  num_chunks :: nat
  md_categories :: "string list"
  md_tags :: "string list"
  processing_timestamp :: int

record knowledge_base =
  kb_documents :: "document list"
  kb_chunks :: "stored_chunk list"
  kb_embeddings :: "string \<rightharpoonup> real list"
  kb_metadata :: "string \<rightharpoonup> doc_metadata"

definition new_knowledge_base :: knowledge_base where
  "new_knowledge_base =
     \<lparr>kb_documents = [], kb_chunks = [], kb_embeddings = Map.empty, kb_metadata = Map.empty\<rparr>"

subsection \<open>Chunking\<close>

text \<open>\<open>s.split('\n\n')\<close>; \<open>cur\<close> is the piece being read, reversed.\<close>

fun split_paragraphs_acc :: "string \<Rightarrow> string \<Rightarrow> string list" where
  "split_paragraphs_acc cur (c1 # c2 # cs) =
     (if c1 = CHR 0x0A \<and> c2 = CHR 0x0A then rev cur # split_paragraphs_acc [] cs
      else split_paragraphs_acc (c1 # cur) (c2 # cs))"
| "split_paragraphs_acc cur [c] = [rev (c # cur)]"
| "split_paragraphs_acc cur [] = [rev cur]"

definition split_paragraphs :: "string \<Rightarrow> string list" where
  "split_paragraphs s = split_paragraphs_acc [] s"

definition is_terminal :: "char \<Rightarrow> bool" where
  "is_terminal c = (c \<in> set ''.!?'')"

text \<open>\<open>re.split(r'[.!?]+', s)\<close>: the pieces between the maximal runs of terminal marks.\<close>

function split_sentences_acc :: "string \<Rightarrow> string \<Rightarrow> string list" where
  "split_sentences_acc cur [] = [rev cur]"
| "split_sentences_acc cur (c # cs) =
     (if is_terminal c then rev cur # split_sentences_acc [] (dropWhile is_terminal cs)
      else split_sentences_acc (c # cur) cs)"
  by pat_completeness auto
termination
  by (relation "measure (\<lambda>(cur, s). length s)")
     (auto simp: length_dropWhile_le less_Suc_eq_le)

definition split_sentences :: "string \<Rightarrow> string list" where
  "split_sentences s = split_sentences_acc [] s"

text \<open>
  The loop over the sentences of one paragraph, shared by \<open>_chunk_medical_content\<close>
  and \<open>_split_long_paragraph\<close>, which differ in the two chunk types only. The state is
  \<open>(chunks, current_chunk, sentence_count)\<close>.
\<close>

fun sentence_loop ::
  "string \<Rightarrow> string \<Rightarrow> string \<Rightarrow> string list \<Rightarrow> chunk list \<times> string \<times> nat
     \<Rightarrow> chunk list \<times> string \<times> nat" where
  "sentence_loop title type_many type_one [] acc = acc"
| "sentence_loop title type_many type_one (sentence # rest) (chunks, current_chunk, sentence_count) =
     (if length current_chunk + length sentence > chunk_size
      then (if current_chunk \<noteq> []
            then sentence_loop title type_many type_one rest
                   (chunks @ [\<lparr>c_content = strip current_chunk, c_title = title,
                                c_chunk_type = type_many,
                                c_sentence_count = Some sentence_count,
                                c_paragraph_index = None, c_start_pos = None,
                                c_end_pos = None, c_category = None\<rparr>],
                    sentence, 1)
            else sentence_loop title type_many type_one rest
                   (chunks @ [\<lparr>c_content = sentence, c_title = title,
                                c_chunk_type = type_one,
                                c_sentence_count = Some 1,
                                c_paragraph_index = None, c_start_pos = None,
                                c_end_pos = None, c_category = None\<rparr>],
                    current_chunk, sentence_count))
      else sentence_loop title type_many type_one rest
             (chunks, current_chunk @ '' '' @ sentence, sentence_count + 1))"

definition chunk_sentences ::
  "string \<Rightarrow> string \<Rightarrow> string \<Rightarrow> chunk list \<Rightarrow> string \<Rightarrow> chunk list" where
  "chunk_sentences title type_many type_one chunks paragraph =
     (let sentences = split_sentences paragraph;
          sentences = map strip (filter (\<lambda>s. strip s \<noteq> []) sentences)
      in case sentence_loop title type_many type_one sentences (chunks, [], 0) of
           (chunks, current_chunk, sentence_count) \<Rightarrow>
             if current_chunk \<noteq> []
             then chunks @ [\<lparr>c_content = strip current_chunk, c_title = title,
                              c_chunk_type = type_many,
                              c_sentence_count = Some sentence_count,
                              c_paragraph_index = None, c_start_pos = None,
                              c_end_pos = None, c_category = None\<rparr>]
             else chunks)"

definition chunk_medical_content :: "string \<Rightarrow> string \<Rightarrow> chunk list" where
  "chunk_medical_content content title =
     fold (\<lambda>paragraph chunks.
             if strip paragraph = [] then chunks
             else chunk_sentences title ''medical_paragraph'' ''medical_sentence'' chunks paragraph)
          (split_paragraphs content) []"

definition split_long_paragraph :: "string \<Rightarrow> string \<Rightarrow> chunk list" where
  "split_long_paragraph paragraph title =
     chunk_sentences title ''split_paragraph'' ''long_sentence'' [] paragraph"

definition chunk_general_content :: "string \<Rightarrow> string \<Rightarrow> chunk list" where
  "chunk_general_content content title =
     fold (\<lambda>(para_idx, paragraph) chunks.
             if strip paragraph = [] then chunks
             else if length paragraph > chunk_size
                  then chunks @ split_long_paragraph paragraph title
                  else chunks @ [\<lparr>c_content = strip paragraph, c_title = title,
                                   c_chunk_type = ''general_paragraph'',
                                   c_sentence_count = None,
                                   c_paragraph_index = Some para_idx, c_start_pos = None,
                                   c_end_pos = None, c_category = None\<rparr>])
          (enumerate 0 (split_paragraphs content)) []"

text \<open>
  The right edge of the window that starts at \<open>start\<close>. The loop
  \<open>for i in range(end, max(start, end - 100), -1)\<close> with its \<open>break\<close> finds the first
  \<open>i\<close>, counting down from \<open>end\<close>, at which a terminal mark stands; it runs only
  when \<open>end < len(content)\<close>, so every \<open>content[i]\<close> it reads exists.
\<close>

definition window_end :: "string \<Rightarrow> nat \<Rightarrow> nat" where
  "window_end content start =
     (let end = start + chunk_size
      in if end < length content
         then (case find (\<lambda>i. is_terminal (content ! i))
                      (rev [Suc (max start (end - 100)) ..< Suc end]) of
                 Some i \<Rightarrow> i + 1
               | None \<Rightarrow> end)
         else end)"

text \<open>
  The \<open>while\<close> loop of \<open>_chunk_fixed_size\<close>; None stands for a loop that does not
  end. The window's right edge is at least \<open>start + 414\<close>, so neither
  \<open>content[start:end]\<close> nor \<open>end - self.chunk_overlap\<close> meets a negative number.
\<close>

partial_function (option) chunk_fixed_size_loop ::
  "string \<Rightarrow> string \<Rightarrow> nat \<Rightarrow> chunk list \<Rightarrow> chunk list option" where
  "chunk_fixed_size_loop content title start chunks =
     (if start < length content
      then (let end = window_end content start;
                chunk_content = strip (take (end - start) (drop start content));
                chunks = (if chunk_content \<noteq> []
                          then chunks @ [\<lparr>c_content = chunk_content, c_title = title,
                                           c_chunk_type = ''fixed_size'',
                                           c_sentence_count = None, c_paragraph_index = None,
                                           c_start_pos = Some start, c_end_pos = Some end,
                                           c_category = None\<rparr>]
                          else chunks);
                start = end - chunk_overlap
            in if start \<ge> length content then Some chunks
               else chunk_fixed_size_loop content title start chunks)
      else Some chunks)"

definition chunk_fixed_size :: "string \<Rightarrow> string \<Rightarrow> chunk list option" where
  "chunk_fixed_size content title = chunk_fixed_size_loop content title 0 []"

definition chunk_document :: "document \<Rightarrow> chunk list option" where
  "chunk_document document =
     (let content = d_content document;
          title = d_title document;
          category = d_category document;
          chunks = (if category \<in> set [''medical_condition'', ''treatment'', ''symptom'']
                    then Some (chunk_medical_content content title)
                    else if category \<in> set [''general'', ''wellness'', ''prevention'']
                    then Some (chunk_general_content content title)
                    else chunk_fixed_size content title)
      in map_option (take max_chunks_per_document) chunks)"

subsection \<open>The fallback embedding\<close>

text \<open>
  \<open>word_freq\<close> is a dictionary filled in the order of the words; \<open>count_word\<close> is
  \<open>word_freq[word] += 1\<close> on a \<open>defaultdict(int)\<close>.
\<close>

fun count_word :: "string \<Rightarrow> (string \<times> nat) list \<Rightarrow> (string \<times> nat) list" where
  "count_word word [] = [(word, 1)]"
| "count_word word ((k, n) # items) =
     (if k = word then (k, n + 1) # items else (k, n) # count_word word items)"

definition linalg_norm :: "real list \<Rightarrow> real" where
  "linalg_norm vector = sqrt (sum_list (map (\<lambda>v. v * v) vector))"

text \<open>
  \<open>hash\<close> is the built-in \<open>hash\<close> of the running interpreter on strings, a
  parameter of the model. \<open>hash(word) % n\<close> for a positive \<open>n\<close> lies in \<open>0..n-1\<close>.
\<close>

definition simple_embedding :: "(string \<Rightarrow> int) \<Rightarrow> string \<Rightarrow> real list" where
  "simple_embedding hash text =
     (let words = split (lower text);
          word_freq = fold (\<lambda>word freq. if length word > 2 then count_word word freq else freq)
                        words [];
          vector = fold (\<lambda>(word, freq) vector.
                           (let hash_val = nat (hash word mod int embedding_dimension)
                            in vector[hash_val := vector ! hash_val + real freq]))
                     word_freq (replicate embedding_dimension 0)
      in if linalg_norm vector > 0 then map (\<lambda>v. v / linalg_norm vector) vector
         else vector)"

definition generate_chunk_embeddings :: "(string \<Rightarrow> int) \<Rightarrow> chunk list \<Rightarrow> real list list" where
  "generate_chunk_embeddings hash chunks = map (\<lambda>chunk. simple_embedding hash (c_content chunk)) chunks"

subsection \<open>Adding a document\<close>

text \<open>\<open>str(i)\<close> for a natural number.\<close>

function str_nat :: "nat \<Rightarrow> string" where
  "str_nat n = (if n < 10 then [char_of (48 + n)]
                else str_nat (n div 10) @ [char_of (48 + n mod 10)])"
  by pat_completeness auto
termination
  by (relation "measure id") auto

text \<open>\<open>md5_hexdigest\<close> is \<open>hashlib.md5(s.encode()).hexdigest()\<close>, a parameter.\<close>

definition generate_document_id :: "(string \<Rightarrow> string) \<Rightarrow> string \<Rightarrow> string \<Rightarrow> string" where
  "generate_document_id md5_hexdigest title content =
     take 12 (md5_hexdigest (title @ '':'' @ take 100 content))"

text \<open>
  \<open>now_added\<close> and \<open>now_processed\<close> are the two readings of the clock. The result
  is None when the chunker does not return.
\<close>

definition add_document ::
  "(string \<Rightarrow> int) \<Rightarrow> (string \<Rightarrow> string) \<Rightarrow> int \<Rightarrow> int
     \<Rightarrow> string \<Rightarrow> string \<Rightarrow> string \<Rightarrow> string \<Rightarrow> string list option
     \<Rightarrow> knowledge_base \<Rightarrow> (string \<times> knowledge_base) option" where
  "add_document hash md5_hexdigest now_added now_processed title content category source tags kb =
     (let document_id = generate_document_id md5_hexdigest title content;
          document = \<lparr>d_id = document_id, d_title = title, d_content = content,
                      d_category = category, d_source = source,
                      d_tags = (case tags of None \<Rightarrow> [] | Some ts \<Rightarrow> ts),
                      d_added_at = now_added,
                      d_word_count = length (split content),
                      d_char_count = length content\<rparr>
      in case chunk_document document of
           None \<Rightarrow> None
         | Some chunks \<Rightarrow>
             (let chunk_embeddings = generate_chunk_embeddings hash chunks;
                  stored = map (\<lambda>(i, chunk).
                                  \<lparr>c_content = c_content chunk, c_title = c_title chunk,
                                   c_chunk_type = c_chunk_type chunk,
                                   c_sentence_count = c_sentence_count chunk,
                                   c_paragraph_index = c_paragraph_index chunk,
                                   c_start_pos = c_start_pos chunk,
                                   c_end_pos = c_end_pos chunk,
                                   c_category = c_category chunk,
                                   c_id = document_id @ ''_chunk_'' @ str_nat i,
                                   c_document_id = document_id,
                                   c_chunk_index = i\<rparr>)
                               (enumerate 0 chunks)
              in Some (document_id,
                       kb\<lparr>kb_documents := kb_documents kb @ [document],
                          kb_chunks := kb_chunks kb @ stored,
                          kb_embeddings := fold (\<lambda>(c, e) m. m(c_id c \<mapsto> e))
                                             (zip stored chunk_embeddings) (kb_embeddings kb),
                          kb_metadata := (kb_metadata kb)(document_id \<mapsto>
                             \<lparr>num_chunks = length chunks, md_categories = [category],
                              md_tags = (case tags of None \<Rightarrow> [] | Some ts \<Rightarrow> ts),
                              processing_timestamp = now_processed\<rparr>)\<rparr>)))"

subsection \<open>Scoring and search\<close>

text \<open>
  \<open>np.dot\<close> raises on vectors of different lengths, and \<open>_cosine_similarity\<close>
  turns every exception into 0.0.
\<close>

definition cosine_similarity :: "real list \<Rightarrow> real list \<Rightarrow> real" where
  "cosine_similarity vec1 vec2 =
     (if length vec1 \<noteq> length vec2 then 0
      else (let dot_product = sum_list (map2 (*) vec1 vec2);
                norm1 = linalg_norm vec1;
                norm2 = linalg_norm vec2
            in if norm1 = 0 \<or> norm2 = 0 then 0
               else dot_product / (norm1 * norm2)))"

definition keyword_similarity :: "string \<Rightarrow> string \<Rightarrow> real" where
  "keyword_similarity query content =
     (let query_words = set (split (lower query)) - set stop_words;
          content_words = set (split (lower content)) - set stop_words
      in if query_words = {} \<or> content_words = {} then 0
         else (let intersection = query_words \<inter> content_words;
                   union = query_words \<union> content_words
               in if union \<noteq> {} then real (card intersection) / real (card union) else 0))"

text \<open>\<open>t in query_lower\<close>: the string \<open>t\<close> occurs in the query as a substring.\<close>

fun contains :: "string \<Rightarrow> string \<Rightarrow> bool" where
  "contains [] t = (t = [])"
| "contains (c # cs) t = (take (length t) (c # cs) = t \<or> contains cs t)"

definition category_terms :: "(string \<times> string list) list" where
  "category_terms =
     [(''medical_condition'', [''condition'', ''disease'', ''illness'', ''symptom'']),
      (''treatment'', [''treatment'', ''therapy'', ''medication'', ''cure'']),
      (''prevention'', [''prevention'', ''prevent'', ''avoid'', ''protection'']),
      (''wellness'', [''wellness'', ''health'', ''fitness'', ''lifestyle''])]"

definition category_similarity :: "string \<Rightarrow> stored_chunk \<Rightarrow> real" where
  "category_similarity query chunk =
     (let query_lower = lower query;
          chunk_category = lower (case c_category chunk of None \<Rightarrow> [] | Some c \<Rightarrow> c)
      in case map_of category_terms chunk_category of
           Some relevant_terms \<Rightarrow>
             (let matches = length (filter (\<lambda>t. contains query_lower t) relevant_terms)
              in min 1 (real matches / real (length relevant_terms)))
         | None \<Rightarrow> 0)"

record similarity =
  s_chunk :: stored_chunk
  s_similarity_score :: real
  s_semantic_similarity :: real
  s_keyword_similarity :: real
  s_category_similarity :: real

text \<open>The body of the loop of \<open>search_knowledge\<close> for a chunk whose embedding is stored.\<close>

definition score_chunk ::
  "real list \<Rightarrow> string \<Rightarrow> string option \<Rightarrow> stored_chunk \<Rightarrow> real list \<Rightarrow> similarity" where
  "score_chunk query_embedding query category_filter chunk chunk_embedding =
     (let semantic_sim = cosine_similarity query_embedding chunk_embedding;
          keyword_sim = keyword_similarity query (c_content chunk);
          category_sim = category_similarity query chunk;
          combined_sim = semantic_sim * weight_semantic + keyword_sim * weight_keyword
                         + category_sim * weight_category;
          combined_sim = (if category_filter \<noteq> None \<and> category_filter \<noteq> Some []
                             \<and> c_category chunk \<noteq> category_filter
                          then combined_sim * (5 / 10) else combined_sim)
      in \<lparr>s_chunk = chunk, s_similarity_score = combined_sim,
          s_semantic_similarity = semantic_sim, s_keyword_similarity = keyword_sim,
          s_category_similarity = category_sim\<rparr>)"

record search_result =
  r_content :: string
  r_title :: string
  r_category :: string
  r_chunk_type :: string
  r_relevance_score :: real
  r_semantic_score :: real
  r_keyword_score :: real
  r_category_score :: real
  r_document_id :: string
  r_chunk_id :: string

definition format_result :: "similarity \<Rightarrow> search_result" where
  "format_result result =
     (let chunk = s_chunk result
      in \<lparr>r_content = c_content chunk,
          r_title = c_title chunk,
          r_category = (case c_category chunk of None \<Rightarrow> ''general'' | Some c \<Rightarrow> c),
          r_chunk_type = c_chunk_type chunk,
          r_relevance_score = s_similarity_score result,
          r_semantic_score = s_semantic_similarity result,
          r_keyword_score = s_keyword_similarity result,
          r_category_score = s_category_similarity result,
          r_document_id = c_document_id chunk,
          r_chunk_id = c_id chunk\<rparr>)"

definition search_knowledge ::
  "(string \<Rightarrow> int) \<Rightarrow> string \<Rightarrow> int \<Rightarrow> string option \<Rightarrow> knowledge_base
     \<Rightarrow> search_result list" where
  "search_knowledge hash query limit category_filter kb =
     (let query_embedding = simple_embedding hash query;
          similarities =
            concat (map (\<lambda>chunk.
                           case kb_embeddings kb (c_id chunk) of
                             None \<Rightarrow> []
                           | Some chunk_embedding \<Rightarrow>
                               [score_chunk query_embedding query category_filter chunk
                                  chunk_embedding])
                        (kb_chunks kb));
          similarities = sort_key (\<lambda>x. - s_similarity_score x) similarities;
          relevant_results = filter (\<lambda>result. s_similarity_score result \<ge> kb_relevance_threshold)
                               similarities
      in map format_result (py_take limit relevant_results))"

section \<open>Notions used in the statements\<close>

text \<open>The entries of a session; a session that is not in the store has none.\<close>

definition session_entries :: "memory_manager \<Rightarrow> string \<Rightarrow> memory_entry list" where
  "session_entries st session_id =
     (case session_memories st session_id of None \<Rightarrow> [] | Some memories \<Rightarrow> memories)"

text \<open>
  A sequence of calls of \<open>add_session_memory\<close>. A call that raises leaves the
  manager as it was, and the next call goes on from there, as under
  \<open>_store_conversation_memory\<close> of advanced\_rag\_system.py, which logs the exception.
\<close>

record turn =
  t_clock :: clock
  t_session_id :: string
  t_user_message :: string
  t_assistant_response :: string
  t_context :: "context_dict option"
  t_user_id :: "string option"

definition record_turn :: "turn \<Rightarrow> memory_manager \<Rightarrow> memory_manager" where
  "record_turn t st =
     (case add_session_memory (t_clock t) (t_session_id t) (t_user_message t)
             (t_assistant_response t) (t_context t) (t_user_id t) st of
        Inl e \<Rightarrow> st
      | Inr st' \<Rightarrow> st')"

definition record_turns :: "turn list \<Rightarrow> memory_manager \<Rightarrow> memory_manager" where
  "record_turns ts st = fold record_turn ts st"

text \<open>
  A turn is recorded in the profile of \<open>u\<close> when it carries the user id \<open>u\<close>,
  \<open>u\<close> is not empty and the message has at least one word.
\<close>

definition recorded_for :: "string \<Rightarrow> turn \<Rightarrow> bool" where
  "recorded_for u t = (t_user_id t = Some u \<and> u \<noteq> [] \<and> split (lower (t_user_message t)) \<noteq> [])"

definition counters :: "memory_manager \<Rightarrow> string \<Rightarrow> nat \<times> nat" where
  "counters st u =
     (case user_profiles st u of None \<Rightarrow> (0, 0)
      | Some p \<Rightarrow> (total_conversations p, total_messages p))"

text \<open>
  \<open>fresh now st\<close> is the test of \<open>_cleanup_old_memories\<close> at clock reading
  \<open>now\<close>; \<open>purge keep\<close> is what its loop, and the loop of
  \<open>clear_user_data\<close>, do to the entry list of one session.
\<close>

definition fresh :: "int \<Rightarrow> memory_manager \<Rightarrow> memory_entry \<Rightarrow> bool" where
  "fresh now st memory = (m_timestamp memory > now - timedelta_days (memory_retention_days st))"

definition purge :: "(memory_entry \<Rightarrow> bool) \<Rightarrow> memory_entry list option \<Rightarrow> memory_entry list option" where
  "purge keep x = (case x of None \<Rightarrow> None
       | Some memories \<Rightarrow> (let filtered_memories = filter keep memories
                          in if filtered_memories \<noteq> [] then Some filtered_memories else None))"

definition owned_by :: "string \<Rightarrow> memory_entry \<Rightarrow> bool" where
  "owned_by u memory = (m_user_id memory = u)"

text \<open>The scoring, thresholding, sorting and truncation of the visited entries.\<close>

definition rank_memories :: "string \<Rightarrow> real \<Rightarrow> int \<Rightarrow> real \<Rightarrow> memory_entry list \<Rightarrow> (memory_entry \<times> real) list" where
  "rank_memories query query_relevance limit threshold visited =
     py_take limit (sort_key (\<lambda>(memory, s). - s)
       (filter (\<lambda>(memory, s). s \<ge> threshold)
          (map (\<lambda>memory. (memory, similarity_score (extract_keywords query) query_relevance memory))
             visited)))"

text \<open>
  An index all of whose stored embeddings have non-negative components, as every
  vector of the fallback embedding has.
\<close>

definition nonnegative_index :: "knowledge_base \<Rightarrow> bool" where
  "nonnegative_index kb =
     list_all (\<lambda>chunk. case kb_embeddings kb (c_id chunk) of
                          None \<Rightarrow> True
                        | Some chunk_embedding \<Rightarrow> list_all (\<lambda>v. 0 \<le> v) chunk_embedding)
       (kb_chunks kb)"

section \<open>Example data\<close>

definition ex_clock :: clock where
  "ex_clock = \<lparr>now_entry = 2678400000000, now_profile = 2678400000001,
               now_promote = 2678400000002, now_cleanup = 2678400000003\<rparr>"

definition ex_alice_entry :: memory_entry where
  "ex_alice_entry =
     \<lparr>m_session_id = ''s0'', m_user_id = ''alice'', m_user_message = ''diagnosis'',
      m_assistant_response = ''ok'', m_timestamp = 0, m_context = [],
      m_memory_type = Long_term, m_relevance_score = 1 / 50, m_keywords = [''diagnosis''],
      m_sentiment = Neutral, m_promoted_at = Some 2\<rparr>"

definition ex_bob_entry :: memory_entry where
  "ex_bob_entry =
     \<lparr>m_session_id = ''s1'', m_user_id = ''bob'', m_user_message = ''diagnosis'',
      m_assistant_response = ''ok'', m_timestamp = 5, m_context = [],
      m_memory_type = Long_term, m_relevance_score = 1 / 50, m_keywords = [''diagnosis''],
      m_sentiment = Neutral, m_promoted_at = Some 7\<rparr>"

definition ex_store :: memory_manager where
  "ex_store =
     new_manager
       \<lparr>session_memories :=
          [''s0'' \<mapsto> [ex_alice_entry\<lparr>m_memory_type := Session, m_promoted_at := None\<rparr>],
           ''s1'' \<mapsto> [ex_alice_entry\<lparr>m_session_id := ''s1'', m_memory_type := Session,
                                      m_promoted_at := None\<rparr>,
                      ex_bob_entry\<lparr>m_memory_type := Session, m_promoted_at := None\<rparr>]],
        long_term_memories := [ex_alice_entry, ex_bob_entry],
        user_profiles := [''alice'' \<mapsto> create_default_profile 0,
                          ''bob'' \<mapsto> create_default_profile 5]\<rparr>"

definition ex_turns :: "turn list" where
  "ex_turns =
     [\<lparr>t_clock = ex_clock, t_session_id = ''s1'', t_user_message = ''fever'',
       t_assistant_response = ''ok'', t_context = None, t_user_id = Some ''alice''\<rparr>,
      \<lparr>t_clock = ex_clock, t_session_id = ''s1'', t_user_message = [],
       t_assistant_response = ''ok'', t_context = None, t_user_id = Some ''alice''\<rparr>,
      \<lparr>t_clock = ex_clock, t_session_id = ''s2'', t_user_message = ''hello'',
       t_assistant_response = ''ok'', t_context = None, t_user_id = Some ''bob''\<rparr>,
      \<lparr>t_clock = ex_clock, t_session_id = ''s1'', t_user_message = ''hello'',
       t_assistant_response = ''ok'', t_context = None, t_user_id = Some ''alice''\<rparr>]"




text \<open>
  The one chunk of the document titled "Flu" with content "flu" and category
  "nutrition", as \<open>add_document\<close> stores it under the document id \<open>doc_id\<close>, and the
  index that holds this chunk with its embedding under \<open>ex_hash_a\<close>.
\<close>

definition flu_chunk :: "string \<Rightarrow> stored_chunk" where
  "flu_chunk doc_id =
     \<lparr>c_content = ''flu'', c_title = ''Flu'', c_chunk_type = ''fixed_size'',
      c_sentence_count = None, c_paragraph_index = None,
      c_start_pos = Some 0, c_end_pos = Some 512, c_category = None,
      c_id = doc_id @ ''_chunk_0'', c_document_id = doc_id, c_chunk_index = 0\<rparr>"

definition flu_kb :: "(string \<Rightarrow> int) \<Rightarrow> string \<Rightarrow> int \<Rightarrow> int \<Rightarrow> knowledge_base" where
  "flu_kb hash doc_id now_added now_processed =
     \<lparr>kb_documents =
        [\<lparr>d_id = doc_id, d_title = ''Flu'', d_content = ''flu'', d_category = ''nutrition'',
          d_source = ''manual'', d_tags = [], d_added_at = now_added, d_word_count = 1,
          d_char_count = 3\<rparr>],
      kb_chunks = [flu_chunk doc_id],
      kb_embeddings = [doc_id @ ''_chunk_0'' \<mapsto> simple_embedding hash ''flu''],
      kb_metadata =
        [doc_id \<mapsto> \<lparr>num_chunks = 1, md_categories = [''nutrition''], md_tags = [],
                      processing_timestamp = now_processed\<rparr>]\<rparr>"


section \<open>Properties of the memory manager\<close>

subsection \<open>Evaluation of the scoring functions\<close>

lemma words_headache:
  "split (lower ''I have a mild headache'') = [''i'', ''have'', ''a'', ''mild'', ''headache'']"
  by code_simp

lemma words_diagnosis:
  "split (lower ''I need information about my diagnosis'') =
     [''i'', ''need'', ''information'', ''about'', ''my'', ''diagnosis'']"
  by code_simp

lemma relevance_headache: "calculate_relevance_score ''I have a mild headache'' = Inr (1 / 2)"
  by (simp add: calculate_relevance_score_def words_headache health_keywords_def)

lemma relevance_diagnosis:
  "calculate_relevance_score ''I need information about my diagnosis'' = Inr (3 / 25)"
  by (simp add: calculate_relevance_score_def words_diagnosis health_keywords_def)

lemma keywords_headache:
  "extract_keywords ''I have a mild headache'' = [''have'', ''mild'', ''headache'']"
  by (simp add: extract_keywords_def words_headache stop_words_def)

lemma keywords_diagnosis:
  "extract_keywords ''I need information about my diagnosis'' =
     [''need'', ''information'', ''about'', ''diagnosis'']"
  by (simp add: extract_keywords_def words_diagnosis stop_words_def)

lemma relevance_fever: "calculate_relevance_score ''fever'' = Inr 1"
  by (simp add: calculate_relevance_score_def lower_def lower_char_def split_def is_space_def
        health_keywords_def)

lemma relevance_hello: "calculate_relevance_score ''hello'' = Inr (1 / 50)"
  by (simp add: calculate_relevance_score_def lower_def lower_char_def split_def is_space_def
        health_keywords_def)

lemma words_fever: "split (lower ''fever'') = [''fever'']"
  by (simp add: lower_def lower_char_def split_def is_space_def)

lemma words_hello: "split (lower ''hello'') = [''hello'']"
  by (simp add: lower_def lower_char_def split_def is_space_def)

lemma relevance_word_diagnosis: "calculate_relevance_score ''diagnosis'' = Inr (1 / 50)"
  by (simp add: calculate_relevance_score_def lower_def lower_char_def split_def is_space_def
        health_keywords_def)

lemma keywords_word_diagnosis: "extract_keywords ''diagnosis'' = [''diagnosis'']"
  by (simp add: extract_keywords_def lower_def lower_char_def split_def is_space_def
        stop_words_def)

subsection \<open>When a call returns\<close>

lemma relevance_Inr_iff:
  "(\<exists>r. calculate_relevance_score msg = Inr r) = (split (lower msg) \<noteq> [])"
  by (auto simp: calculate_relevance_score_def Let_def)

lemma relevance_Inl_iff:
  "(calculate_relevance_score msg = Inl e) = (split (lower msg) = [])"
  by (cases e) (auto simp: calculate_relevance_score_def Let_def)

lemma add_session_memory_Inl:
  "split (lower msg) = [] \<Longrightarrow> add_session_memory clk sid msg resp ctx uid st = Inl ZeroDivisionError"
  by (simp add: add_session_memory_def calculate_relevance_score_def Let_def)

lemma add_session_memory_Inr:
  assumes "add_session_memory clk sid msg resp ctx uid st = Inr st'"
  shows "split (lower msg) \<noteq> []"
  using assms by (auto simp: add_session_memory_def calculate_relevance_score_def Let_def split: if_splits)

lemma add_session_memory_returns:
  "split (lower msg) \<noteq> [] \<Longrightarrow> \<exists>st'. add_session_memory clk sid msg resp ctx uid st = Inr st'"
  by (simp add: add_session_memory_def calculate_relevance_score_def Let_def)

subsection \<open>The stores after a call\<close>

lemma fields_context [simp]:
  "session_memories (update_conversation_context sid e st) = session_memories st"
  "long_term_memories (update_conversation_context sid e st) = long_term_memories st"
  "memory_retention_days (update_conversation_context sid e st) = memory_retention_days st"
  "relevance_threshold (update_conversation_context sid e st) = relevance_threshold st"
  by (simp_all add: update_conversation_context_def Let_def)

lemma fields_profile [simp]:
  "session_memories (update_user_profile now u e st) = session_memories st"
  "long_term_memories (update_user_profile now u e st) = long_term_memories st"
  "memory_retention_days (update_user_profile now u e st) = memory_retention_days st"
  "relevance_threshold (update_user_profile now u e st) = relevance_threshold st"
  by (simp_all add: update_user_profile_def Let_def)

lemma fields_promote [simp]:
  "session_memories (promote_to_long_term now e st) = session_memories st"
  "long_term_memories (promote_to_long_term now e st) =
     long_term_memories st @ [e\<lparr>m_memory_type := Long_term, m_promoted_at := Some now\<rparr>]"
  "memory_retention_days (promote_to_long_term now e st) = memory_retention_days st"
  "relevance_threshold (promote_to_long_term now e st) = relevance_threshold st"
  by (simp_all add: promote_to_long_term_def Let_def)

lemma fields_cleanup [simp]:
  "session_memories (cleanup_old_memories now st) = (\<lambda>s. purge (fresh now st) (session_memories st s))"
  "long_term_memories (cleanup_old_memories now st) = filter (fresh now st) (long_term_memories st)"
  "memory_retention_days (cleanup_old_memories now st) = memory_retention_days st"
  "relevance_threshold (cleanup_old_memories now st) = relevance_threshold st"
  unfolding cleanup_old_memories_def purge_def fresh_def [abs_def] Let_def by simp_all

lemma add_session_memory_stores:
  assumes "add_session_memory clk sid msg resp ctx uid st = Inr st'"
  shows "\<exists>r. calculate_relevance_score msg = Inr r \<and>
           long_term_memories st' =
             filter (fresh (now_cleanup clk) st)
               (long_term_memories st @
                 (if should_promote_to_long_term (new_memory_entry clk sid msg resp ctx uid r)
                  then [(new_memory_entry clk sid msg resp ctx uid r)
                          \<lparr>m_memory_type := Long_term, m_promoted_at := Some (now_promote clk)\<rparr>]
                  else [])) \<and>
           session_memories st' =
             (\<lambda>s. purge (fresh (now_cleanup clk) st)
                    (((session_memories st)
                       (sid \<mapsto> session_entries st sid @ [new_memory_entry clk sid msg resp ctx uid r])) s)) \<and>
           memory_retention_days st' = memory_retention_days st \<and>
           relevance_threshold st' = relevance_threshold st"
proof -
  obtain r where r: "calculate_relevance_score msg = Inr r"
    using assms by (auto simp: add_session_memory_def split: sum.splits)
  have fr: "\<And>now e s. fresh now (promote_to_long_term (now_promote clk) e s) = fresh now s"
       "\<And>now u e s. fresh now (update_user_profile (now_profile clk) u e s) = fresh now s"
       "\<And>now e s. fresh now (update_conversation_context sid e s) = fresh now s"
       "\<And>now f. fresh now (st\<lparr>session_memories := f\<rparr>) = fresh now st"
    by (simp_all add: fresh_def fun_eq_iff)
  show ?thesis
    using assms r
    by (auto simp: add_session_memory_def Let_def session_entries_def fr fun_eq_iff
             split: option.splits)
qed

lemma session_entries_purge:
  "session_memories st' = (\<lambda>s. purge keep (f s)) \<Longrightarrow>
   session_entries st' s = filter keep (case f s of None \<Rightarrow> [] | Some ms \<Rightarrow> ms)"
  by (auto simp: session_entries_def purge_def Let_def split: option.splits)

lemma purge_not_empty: "purge keep x \<noteq> Some []"
  by (auto simp: purge_def Let_def split: option.splits)


lemma long_term_after_add:
  assumes "add_session_memory clk sid msg resp ctx uid st = Inr st'"
    and "now_cleanup clk - timedelta_days (memory_retention_days st) < now_entry clk"
  shows "\<exists>r. calculate_relevance_score msg = Inr r \<and>
           long_term_memories st' =
             filter (\<lambda>m. m_timestamp m > now_cleanup clk - timedelta_days (memory_retention_days st))
               (long_term_memories st) @
             (if r > 8 / 10 \<or> set (extract_keywords msg) \<inter> set important_keywords \<noteq> {}
              then [(new_memory_entry clk sid msg resp ctx uid r)
                      \<lparr>m_memory_type := Long_term, m_promoted_at := Some (now_promote clk)\<rparr>]
              else [])"
proof -
  from add_session_memory_stores[OF assms(1)] obtain r where
    r: "calculate_relevance_score msg = Inr r" and
    lt: "long_term_memories st' =
             filter (fresh (now_cleanup clk) st)
               (long_term_memories st @
                 (if should_promote_to_long_term (new_memory_entry clk sid msg resp ctx uid r)
                  then [(new_memory_entry clk sid msg resp ctx uid r)
                          \<lparr>m_memory_type := Long_term, m_promoted_at := Some (now_promote clk)\<rparr>]
                  else []))"
    by blast
  have sp: "should_promote_to_long_term (new_memory_entry clk sid msg resp ctx uid r) =
          (r > 8 / 10 \<or> set (extract_keywords msg) \<inter> set important_keywords \<noteq> {})"
    by (auto simp: should_promote_to_long_term_def new_memory_entry_def list_ex_iff)
  have fr: "fresh (now_cleanup clk) st ((new_memory_entry clk sid msg resp ctx uid r)
                          \<lparr>m_memory_type := Long_term, m_promoted_at := Some (now_promote clk)\<rparr>)"
    using assms(2) by (simp add: fresh_def new_memory_entry_def)
  show ?thesis
    using r lt fr unfolding sp by (auto simp: fresh_def [abs_def])
qed

subsection \<open>Promotion to long-term storage\<close>

text \<open>
  C1. A turn that is recorded while its own timestamp is inside the retention period adds
  a long-term copy of its entry exactly when its relevance score exceeds 0.8 or one of
  its keywords is in the priority list; nothing else is added to the long-term store.
  The message "I have a mild headache" (score 1/2, keywords have, mild, headache) adds no
  copy; the message "I need information about my diagnosis" adds one although its score
  is only 3/25.
\<close>

theorem promotion_gate:
  assumes "now_cleanup clk - timedelta_days (memory_retention_days st) < now_entry clk"
  shows "(\<forall>st'. add_session_memory clk sid msg resp ctx uid st = Inr st' \<longrightarrow>
           (\<exists>r. calculate_relevance_score msg = Inr r \<and>
              long_term_memories st' =
                filter (fresh (now_cleanup clk) st) (long_term_memories st) @
                (if r > 8 / 10 \<or> set (extract_keywords msg) \<inter> set important_keywords \<noteq> {}
                 then [(new_memory_entry clk sid msg resp ctx uid r)
                         \<lparr>m_memory_type := Long_term, m_promoted_at := Some (now_promote clk)\<rparr>]
                 else [])))
       \<and> (\<exists>st'. add_session_memory clk sid ''I have a mild headache'' resp ctx uid st = Inr st'
              \<and> long_term_memories st' =
                  filter (fresh (now_cleanup clk) st) (long_term_memories st))
       \<and> (\<exists>st'. add_session_memory clk sid ''I need information about my diagnosis'' resp ctx uid st
                = Inr st'
              \<and> long_term_memories st' =
                  filter (fresh (now_cleanup clk) st) (long_term_memories st) @
                  [(new_memory_entry clk sid ''I need information about my diagnosis'' resp ctx uid
                      (3 / 25))
                     \<lparr>m_memory_type := Long_term, m_promoted_at := Some (now_promote clk)\<rparr>])"
proof -
  have gen: "\<And>msg st' r. add_session_memory clk sid msg resp ctx uid st = Inr st' \<Longrightarrow>
           calculate_relevance_score msg = Inr r \<Longrightarrow>
              long_term_memories st' =
                filter (fresh (now_cleanup clk) st) (long_term_memories st) @
                (if r > 8 / 10 \<or> set (extract_keywords msg) \<inter> set important_keywords \<noteq> {}
                 then [(new_memory_entry clk sid msg resp ctx uid r)
                         \<lparr>m_memory_type := Long_term, m_promoted_at := Some (now_promote clk)\<rparr>]
                 else [])"
    using long_term_after_add[OF _ assms] by (fastforce simp: fresh_def [abs_def])
  have ex: "\<And>msg st'. add_session_memory clk sid msg resp ctx uid st = Inr st' \<Longrightarrow>
           \<exists>r. calculate_relevance_score msg = Inr r"
    by (auto simp: add_session_memory_def split: sum.splits)
  obtain s1 where s1: "add_session_memory clk sid ''I have a mild headache'' resp ctx uid st = Inr s1"
    using add_session_memory_returns[of "''I have a mild headache''" clk sid resp ctx uid st]
    by (auto simp: words_headache)
  obtain s2 where s2: "add_session_memory clk sid ''I need information about my diagnosis'' resp ctx uid st = Inr s2"
    using add_session_memory_returns[of "''I need information about my diagnosis''" clk sid resp ctx uid st]
    by (auto simp: words_diagnosis)
  have e1: "long_term_memories s1 = filter (fresh (now_cleanup clk) st) (long_term_memories st)"
    using gen[OF s1 relevance_headache] by (simp add: keywords_headache important_keywords_def)
  have e2: "long_term_memories s2 =
                  filter (fresh (now_cleanup clk) st) (long_term_memories st) @
                  [(new_memory_entry clk sid ''I need information about my diagnosis'' resp ctx uid
                      (3 / 25))
                     \<lparr>m_memory_type := Long_term, m_promoted_at := Some (now_promote clk)\<rparr>]"
    using gen[OF s2 relevance_diagnosis] by (simp add: keywords_diagnosis important_keywords_def)
  from gen ex s1 e1 s2 e2 show ?thesis by blast
qed

theorem promotion_gate_witness:
  "now_cleanup ex_clock - timedelta_days (memory_retention_days new_manager) < now_entry ex_clock
   \<and> (\<exists>st'. add_session_memory ex_clock ''s1'' ''fever'' ''ok'' None (Some ''alice'') new_manager
              = Inr st'
        \<and> long_term_memories st' =
            [(new_memory_entry ex_clock ''s1'' ''fever'' ''ok'' None (Some ''alice'') 1)
               \<lparr>m_memory_type := Long_term, m_promoted_at := Some 2678400000002\<rparr>])"
proof -
  have h: "now_cleanup ex_clock - timedelta_days (memory_retention_days new_manager)
             < now_entry ex_clock"
    by (simp add: ex_clock_def new_manager_def timedelta_days_def)
  obtain s where s: "add_session_memory ex_clock ''s1'' ''fever'' ''ok'' None (Some ''alice'')
                       new_manager = Inr s"
    using add_session_memory_returns[of "''fever''" ex_clock "''s1''" "''ok''" None
            "Some ''alice''" new_manager]
    by (auto simp: words_fever)
  from promotion_gate[OF h, of "''s1''" "''fever''" "''ok''" None "Some ''alice''"] s
    relevance_fever
  have "long_term_memories s =
            [(new_memory_entry ex_clock ''s1'' ''fever'' ''ok'' None (Some ''alice'') 1)
               \<lparr>m_memory_type := Long_term, m_promoted_at := Some 2678400000002\<rparr>]"
    by (auto simp: new_manager_def ex_clock_def)
  with h s show ?thesis by blast
qed

subsection \<open>Messages without a word\<close>

text \<open>
  C2. The claim is that no core memory operation raises on an empty message or query.
  The code divides by the number of words of the text: on an empty or blank message
  \<open>add_session_memory\<close> raises ZeroDivisionError, and so does
  \<open>get_relevant_long_term_memories\<close> on an empty query, for every session id,
  user id, limit and manager.
\<close>

theorem empty_input_raises:
  "add_session_memory clk sid [] resp ctx uid st = Inl ZeroDivisionError
   \<and> add_session_memory clk sid ''   '' resp ctx uid st = Inl ZeroDivisionError
   \<and> get_relevant_long_term_memories [] uid limit st = Inl ZeroDivisionError"
  by (simp add: add_session_memory_def get_relevant_long_term_memories_def
        calculate_relevance_score_def lower_def lower_char_def split_def is_space_def)

subsection \<open>Retrieval of long-term memories\<close>

lemma set_py_take: "set (py_take k xs) \<subseteq> set xs"
  by (auto simp: py_take_def dest: in_set_takeD)

lemma get_relevant_for_user:
  assumes "u \<noteq> []"
  shows "get_relevant_long_term_memories query (Some u) limit st =
           (case calculate_relevance_score query of
              Inl e \<Rightarrow> Inl e
            | Inr r \<Rightarrow> Inr (rank_memories query r limit (relevance_threshold st)
                              (filter (owned_by u) (long_term_memories st))))"
  using assms
  by (simp add: get_relevant_long_term_memories_def rank_memories_def Let_def
        owned_by_def [abs_def] split: sum.splits)

lemma rank_memories_subset:
  "x \<in> set (rank_memories query r limit threshold visited) \<Longrightarrow> fst x \<in> set visited"
  using set_py_take[of limit] by (fastforce simp: rank_memories_def)

text \<open>
  C5, as the code has it. For a user id that is not empty, every returned memory is
  owned by that user, and the result is the same for every store that holds the same
  entries of that user (and the same threshold), whatever the other users own.
\<close>

theorem long_term_retrieval_privacy:
  assumes "u \<noteq> []"
    and "get_relevant_long_term_memories query (Some u) limit st = Inr res"
  shows "(\<forall>x \<in> set res. m_user_id (fst x) = u)
       \<and> (\<forall>st2. filter (owned_by u) (long_term_memories st2)
                   = filter (owned_by u) (long_term_memories st)
                 \<and> relevance_threshold st2 = relevance_threshold st
                 \<longrightarrow> get_relevant_long_term_memories query (Some u) limit st2 = Inr res)"
proof -
  from assms obtain r where r: "calculate_relevance_score query = Inr r"
    and res: "res = rank_memories query r limit (relevance_threshold st)
                      (filter (owned_by u) (long_term_memories st))"
    by (auto simp: get_relevant_for_user split: sum.splits)
  have "\<forall>x \<in> set res. m_user_id (fst x) = u"
    unfolding res using rank_memories_subset by (fastforce simp: owned_by_def)
  moreover have "\<forall>st2. filter (owned_by u) (long_term_memories st2)
                   = filter (owned_by u) (long_term_memories st)
                 \<and> relevance_threshold st2 = relevance_threshold st
                 \<longrightarrow> get_relevant_long_term_memories query (Some u) limit st2 = Inr res"
    using assms(1) r res by (simp add: get_relevant_for_user)
  ultimately show ?thesis by blast
qed

theorem long_term_retrieval_privacy_witness:
  "''alice'' \<noteq> []
   \<and> get_relevant_long_term_memories ''diagnosis'' (Some ''alice'') 5 ex_store
       = Inr [(ex_alice_entry, 1)]
   \<and> m_user_id (fst (ex_alice_entry, 1 :: real)) = ''alice''
   \<and> get_relevant_long_term_memories ''diagnosis'' (Some ''alice'') 5
       (ex_store\<lparr>long_term_memories := [ex_alice_entry]\<rparr>) = Inr [(ex_alice_entry, 1)]"
proof -
  have a: "''alice'' \<noteq> []" by simp
  have b: "get_relevant_long_term_memories ''diagnosis'' (Some ''alice'') 5 ex_store
       = Inr [(ex_alice_entry, 1)]"
    by (simp add: get_relevant_long_term_memories_def relevance_word_diagnosis
        keywords_word_diagnosis ex_store_def new_manager_def ex_alice_entry_def ex_bob_entry_def
        similarity_score_def py_take_def Let_def)
  have c: "filter (owned_by ''alice'') (long_term_memories (ex_store\<lparr>long_term_memories := [ex_alice_entry]\<rparr>))
        = filter (owned_by ''alice'') (long_term_memories ex_store)"
    by (simp add: ex_store_def owned_by_def ex_alice_entry_def ex_bob_entry_def)
  from long_term_retrieval_privacy[OF a b] c b show ?thesis
    by (simp add: ex_alice_entry_def)
qed

text \<open>
  C5 as stated fails when the user id is the empty string or None: the test on the owner
  is skipped, and the entries of alice and of bob are both returned.
\<close>

theorem retrieval_without_user_counterexample:
  "get_relevant_long_term_memories ''diagnosis'' (Some []) 5 ex_store
     = Inr [(ex_alice_entry, 1), (ex_bob_entry, 1)]
   \<and> get_relevant_long_term_memories ''diagnosis'' None 5 ex_store
     = Inr [(ex_alice_entry, 1), (ex_bob_entry, 1)]
   \<and> m_user_id ex_alice_entry = ''alice'' \<and> m_user_id ex_bob_entry = ''bob''"
  by (simp add: get_relevant_long_term_memories_def relevance_word_diagnosis
        keywords_word_diagnosis ex_store_def new_manager_def ex_alice_entry_def ex_bob_entry_def
        similarity_score_def py_take_def Let_def)

subsection \<open>Retention\<close>




subsection \<open>Erasing a user\<close>

text \<open>
  C7. \<open>clear_user_data u\<close> removes the profile of \<open>u\<close> and every long-term
  and session entry owned by \<open>u\<close>, leaves no session with an empty list, and
  leaves the profile, the long-term entries and the session entries of every other user
  as they were.
\<close>

theorem clear_user_data_frame:
  "user_profiles (clear_user_data u st) u = None
   \<and> (\<forall>m \<in> set (long_term_memories (clear_user_data u st)). m_user_id m \<noteq> u)
   \<and> (\<forall>s. \<forall>m \<in> set (session_entries (clear_user_data u st) s). m_user_id m \<noteq> u)
   \<and> (\<forall>s. session_memories (clear_user_data u st) s \<noteq> Some [])
   \<and> (\<forall>v. v \<noteq> u \<longrightarrow>
         user_profiles (clear_user_data u st) v = user_profiles st v
         \<and> filter (owned_by v) (long_term_memories (clear_user_data u st))
             = filter (owned_by v) (long_term_memories st)
         \<and> (\<forall>s. filter (owned_by v) (session_entries (clear_user_data u st) s)
                  = filter (owned_by v) (session_entries st s)))"
proof -
  have se: "session_memories (clear_user_data u st) =
        (\<lambda>s. purge (\<lambda>m. m_user_id m \<noteq> u) (session_memories st s))"
    by (simp add: clear_user_data_def purge_def Let_def)
  have lt: "long_term_memories (clear_user_data u st) =
        filter (\<lambda>m. m_user_id m \<noteq> u) (long_term_memories st)"
    by (simp add: clear_user_data_def Let_def)
  have pr: "user_profiles (clear_user_data u st) = (user_profiles st)(u := None)"
    by (simp add: clear_user_data_def Let_def)
  have ent: "\<And>s. session_entries (clear_user_data u st) s =
        filter (\<lambda>m. m_user_id m \<noteq> u) (session_entries st s)"
    unfolding session_entries_purge[OF se] by (simp add: session_entries_def)
  have f: "\<And>v xs. v \<noteq> u \<Longrightarrow>
      filter (owned_by v) (filter (\<lambda>m. m_user_id m \<noteq> u) xs) = filter (owned_by v) xs"
    by (auto simp: owned_by_def intro: filter_cong)
  show ?thesis
    unfolding ent lt pr using f by (auto simp: se purge_not_empty)
qed

theorem clear_user_data_frame_witness:
  "user_profiles (clear_user_data ''alice'' ex_store) ''alice'' = None
   \<and> ''bob'' \<noteq> ''alice''
   \<and> user_profiles (clear_user_data ''alice'' ex_store) ''bob'' = user_profiles ex_store ''bob''
   \<and> long_term_memories (clear_user_data ''alice'' ex_store) = [ex_bob_entry]
   \<and> session_memories (clear_user_data ''alice'' ex_store) ''s0'' = None
   \<and> session_memories (clear_user_data ''alice'' ex_store) ''s1''
       = Some [ex_bob_entry\<lparr>m_memory_type := Session, m_promoted_at := None\<rparr>]"
  using clear_user_data_frame[of "''alice''" ex_store]
  by (simp add: clear_user_data_def ex_store_def ex_alice_entry_def ex_bob_entry_def
        new_manager_def)

subsection \<open>Profile counters\<close>

lemma user_profiles_cleanup [simp]:
  "user_profiles (cleanup_old_memories now st) = user_profiles st"
  by (simp add: cleanup_old_memories_def Let_def)

lemma user_profiles_promote [simp]:
  "user_profiles (promote_to_long_term now e st) = user_profiles st"
  by (simp add: promote_to_long_term_def Let_def)

lemma user_profiles_context [simp]:
  "user_profiles (update_conversation_context sid e st) = user_profiles st"
  by (simp add: update_conversation_context_def Let_def)

lemma user_profiles_update_cong:
  "user_profiles st1 = user_profiles st2 \<Longrightarrow>
   user_profiles (update_user_profile now u e st1) = user_profiles (update_user_profile now u e st2)"
  by (simp add: update_user_profile_def Let_def)

lemma counters_update_user_profile:
  "counters (update_user_profile now u e st) v =
     (if v = u then (fst (counters st u) + 1, snd (counters st u) + 1) else counters st v)"
  by (simp add: counters_def update_user_profile_def Let_def create_default_profile_def
           split: option.splits)

lemma counters_add_session_memory:
  assumes "add_session_memory clk sid msg resp ctx uid st = Inr st'"
  shows "counters st' v =
           (if uid = Some v \<and> v \<noteq> [] then (fst (counters st v) + 1, snd (counters st v) + 1)
            else counters st v)"
proof -
  obtain r where r: "calculate_relevance_score msg = Inr r"
    using assms by (auto simp: add_session_memory_def split: sum.splits)
  let ?e = "new_memory_entry clk sid msg resp ctx uid r"
  have prof: "user_profiles st' =
      user_profiles (case uid of None \<Rightarrow> st
                     | Some u \<Rightarrow> if u = [] then st else update_user_profile (now_profile clk) u ?e st)"
    using assms r
    by (auto simp: add_session_memory_def Let_def split: option.splits
             intro!: user_profiles_update_cong)
  show ?thesis
  proof (cases uid)
    case None
    with prof show ?thesis by (simp add: counters_def)
  next
    case (Some u)
    show ?thesis
    proof (cases "u = []")
      case True
      with prof Some show ?thesis by (auto simp add: counters_def)
    next
      case False
      with prof Some have "counters st' v = counters (update_user_profile (now_profile clk) u ?e st) v"
        by (simp add: counters_def)
      with False Some show ?thesis
        by (auto simp: counters_update_user_profile)
    qed
  qed
qed

lemma counters_record_turn:
  "counters (record_turn t st) v =
     (if recorded_for v t then (fst (counters st v) + 1, snd (counters st v) + 1)
      else counters st v)"
proof (cases "add_session_memory (t_clock t) (t_session_id t) (t_user_message t)
             (t_assistant_response t) (t_context t) (t_user_id t) st")
  case (Inl e)
  then have "split (lower (t_user_message t)) = []"
    by (auto simp: add_session_memory_def relevance_Inl_iff Let_def split: sum.splits)
  with Inl show ?thesis by (simp add: record_turn_def recorded_for_def)
next
  case (Inr st')
  from add_session_memory_Inr[OF Inr] counters_add_session_memory[OF Inr, of v] Inr
  show ?thesis by (auto simp: record_turn_def recorded_for_def)
qed

lemma counters_record_turns:
  "counters (record_turns ts st) v =
     (fst (counters st v) + length (filter (recorded_for v) ts),
      snd (counters st v) + length (filter (recorded_for v) ts))"
  unfolding record_turns_def
  by (induction ts arbitrary: st) (auto simp: counters_record_turn)

lemma dom_profiles_update:
  "dom (user_profiles (update_user_profile now u e st)) = insert u (dom (user_profiles st))"
  by (simp add: update_user_profile_def Let_def)

lemma dom_profiles_add:
  assumes "add_session_memory clk sid msg resp ctx uid st = Inr st'"
  shows "dom (user_profiles st') =
           dom (user_profiles st) \<union> (case uid of None \<Rightarrow> {} | Some u \<Rightarrow> if u = [] then {} else {u})"
proof -
  obtain r where r: "calculate_relevance_score msg = Inr r"
    using assms by (auto simp: add_session_memory_def split: sum.splits)
  have "user_profiles st' =
      user_profiles (case uid of None \<Rightarrow> st
                     | Some u \<Rightarrow> if u = [] then st
                         else update_user_profile (now_profile clk) u
                                (new_memory_entry clk sid msg resp ctx uid r) st)"
    using assms r
    by (auto simp: add_session_memory_def Let_def split: option.splits
             intro!: user_profiles_update_cong)
  then show ?thesis
    by (auto simp: dom_profiles_update split: option.splits if_splits)
qed

lemma dom_profiles_record_turn:
  "dom (user_profiles (record_turn t st)) = dom (user_profiles st) \<union> {u. recorded_for u t}"
proof (cases "add_session_memory (t_clock t) (t_session_id t) (t_user_message t)
             (t_assistant_response t) (t_context t) (t_user_id t) st")
  case (Inl e)
  then have "split (lower (t_user_message t)) = []"
    by (auto simp: add_session_memory_def relevance_Inl_iff Let_def split: sum.splits)
  with Inl show ?thesis by (simp add: record_turn_def recorded_for_def)
next
  case (Inr st')
  from add_session_memory_Inr[OF Inr] dom_profiles_add[OF Inr] Inr
  show ?thesis by (auto simp: record_turn_def recorded_for_def split: option.splits if_splits)
qed

lemma dom_profiles_record_turns:
  "dom (user_profiles (record_turns ts st)) =
     dom (user_profiles st) \<union> {u. \<exists>t \<in> set ts. recorded_for u t}"
  unfolding record_turns_def
  by (induction ts arbitrary: st) (auto simp: dom_profiles_record_turn)

text \<open>
  C10. After any sequence of calls of \<open>add_session_memory\<close> on a new manager, in
  every profile the counters \<open>total_conversations\<close> and \<open>total_messages\<close>
  are equal: both are the number of turns recorded for that user. Started on a manager
  whose profiles already have equal counters (profiles loaded from disk), any sequence
  of calls leaves them equal.
\<close>

theorem profile_counters_agree:
  "(user_profiles (record_turns ts new_manager) u = Some p \<longrightarrow>
      total_conversations p = total_messages p
      \<and> total_messages p = length (filter (recorded_for u) ts))
   \<and> ((\<forall>v q. user_profiles st v = Some q \<longrightarrow> total_conversations q = total_messages q)
        \<and> user_profiles (record_turns ts st) u = Some p'
      \<longrightarrow> total_conversations p' = total_messages p')"
proof -
  have "counters new_manager u = (0, 0)"
    by (simp add: counters_def new_manager_def)
  with counters_record_turns[of ts new_manager u]
  have "counters (record_turns ts new_manager) u =
          (length (filter (recorded_for u) ts), length (filter (recorded_for u) ts))"
    by simp
  then have fresh_start: "user_profiles (record_turns ts new_manager) u = Some p \<longrightarrow>
      total_conversations p = total_messages p
      \<and> total_messages p = length (filter (recorded_for u) ts)"
    by (auto simp: counters_def)
  have loaded: "(\<forall>v q. user_profiles st v = Some q \<longrightarrow> total_conversations q = total_messages q)
        \<and> user_profiles (record_turns ts st) u = Some p'
      \<longrightarrow> total_conversations p' = total_messages p'"
  proof (intro impI, elim conjE)
    assume inv: "\<forall>v q. user_profiles st v = Some q \<longrightarrow> total_conversations q = total_messages q"
      and p': "user_profiles (record_turns ts st) u = Some p'"
    have "fst (counters st u) = snd (counters st u)"
      using inv by (auto simp: counters_def split: option.splits)
    with counters_record_turns[of ts st u]
    have "fst (counters (record_turns ts st) u) = snd (counters (record_turns ts st) u)"
      by simp
    with p' show "total_conversations p' = total_messages p'"
      by (auto simp: counters_def)
  qed
  from fresh_start loaded show ?thesis by (rule conjI)
qed

theorem profile_counters_agree_witness:
  "\<exists>p. user_profiles (record_turns ex_turns new_manager) ''alice'' = Some p
      \<and> total_conversations p = 2 \<and> total_messages p = 2"
proof -
  have "''alice'' \<in> dom (user_profiles (record_turns ex_turns new_manager))"
    unfolding dom_profiles_record_turns
    by (simp add: ex_turns_def recorded_for_def words_fever)
  then obtain p where p: "user_profiles (record_turns ex_turns new_manager) ''alice'' = Some p"
    by blast
  have n: "length (filter (recorded_for ''alice'') ex_turns) = 2"
    by (simp add: ex_turns_def recorded_for_def words_fever words_hello)
       (simp add: lower_def split_def)
  from profile_counters_agree[of ex_turns "''alice''" p] n p show ?thesis by auto
qed

section \<open>Properties of the knowledge base\<close>

subsection \<open>The fixed-window chunker\<close>

lemma window_end_lower: "start + 414 \<le> window_end content start"
proof (cases "find (\<lambda>i. is_terminal (content ! i))
                 (rev [Suc (max start (start + chunk_size - 100)) ..< Suc (start + chunk_size)])")
  case None
  then show ?thesis unfolding window_end_def Let_def by (simp add: chunk_size_def)
next
  case (Some i)
  then have "i \<in> set (rev [Suc (max start (start + chunk_size - 100)) ..< Suc (start + chunk_size)])"
    unfolding find_Some_iff by (metis nth_mem)
  then have "i \<in> {Suc (max start (start + chunk_size - 100)) ..< Suc (start + chunk_size)}"
    unfolding set_rev set_upt .
  then have "start + 413 \<le> i" unfolding chunk_size_def by simp
  with Some show ?thesis unfolding window_end_def Let_def by (simp add: chunk_size_def)
qed

lemma window_end_upper: "window_end content start \<le> start + 513"
proof (cases "find (\<lambda>i. is_terminal (content ! i))
                 (rev [Suc (max start (start + chunk_size - 100)) ..< Suc (start + chunk_size)])")
  case None
  then show ?thesis unfolding window_end_def Let_def by (simp add: chunk_size_def)
next
  case (Some i)
  then have "i \<in> set (rev [Suc (max start (start + chunk_size - 100)) ..< Suc (start + chunk_size)])"
    unfolding find_Some_iff by (metis nth_mem)
  then have "i \<in> {Suc (max start (start + chunk_size - 100)) ..< Suc (start + chunk_size)}"
    unfolding set_rev set_upt .
  then have "i \<le> start + 512" unfolding chunk_size_def by simp
  with Some show ?thesis unfolding window_end_def Let_def by (simp add: chunk_size_def)
qed

lemma start_increases: "start < window_end content start - chunk_overlap"
  using window_end_lower[of start content] by (simp add: chunk_overlap_def)

lemma chunk_fixed_size_loop_returns:
  "\<exists>result. chunk_fixed_size_loop content title start chunks = Some result"
proof (induction "length content - start" arbitrary: start chunks rule: less_induct)
  case less
  show ?case
  proof (cases "start < length content")
    case False
    then show ?thesis by (subst chunk_fixed_size_loop.simps) simp
  next
    case True
    let ?start' = "window_end content start - chunk_overlap"
    show ?thesis
    proof (cases "?start' \<ge> length content")
      case True
      with \<open>start < length content\<close> show ?thesis
        by (subst chunk_fixed_size_loop.simps) (simp add: Let_def)
    next
      case False
      with start_increases[of start content] True
      have "length content - ?start' < length content - start" by linarith
      from less[OF this] False True show ?thesis
        by (subst chunk_fixed_size_loop.simps) (simp add: Let_def)
    qed
  qed
qed

text \<open>
  C9. The fixed-window chunker returns for every content and title; on empty content it
  returns no chunk; and in every iteration the next window start is strictly greater than
  the current one (chunk size 512, overlap 50, backward scan of at most 100 characters).
\<close>

theorem chunk_fixed_size_total:
  "(\<exists>chunks. chunk_fixed_size content title = Some chunks)
   \<and> chunk_fixed_size [] title = Some []
   \<and> start < window_end content start - chunk_overlap"
proof -
  have "chunk_fixed_size [] title = Some []"
    unfolding chunk_fixed_size_def by (subst chunk_fixed_size_loop.simps) simp
  with chunk_fixed_size_loop_returns[of content title 0 "[]"] start_increases[of start content]
  show ?thesis by (simp add: chunk_fixed_size_def)
qed

subsection \<open>Bounds of the score components\<close>

lemma sum_squares_nonneg: "0 \<le> sum_list (map (\<lambda>v. v * v) (xs :: real list))"
  by (rule sum_list_nonneg) auto




lemma linalg_norm_nonneg: "0 \<le> linalg_norm xs"
  by (simp add: linalg_norm_def sum_squares_nonneg)







lemma scatter_nonneg:
  "\<forall>x \<in> set vector0. 0 \<le> x \<Longrightarrow>
   \<forall>x \<in> set (fold (\<lambda>(word, freq) vector.
                   vector[nat (hash word mod int n) :=
                            vector ! nat (hash word mod int n) + real freq]) items vector0). 0 \<le> x"
proof (induction items arbitrary: vector0)
  case Nil
  then show ?case by simp
next
  case (Cons it items)
  obtain word freq where it: "it = (word, freq)" by (cases it)
  let ?i = "nat (hash word mod int n)"
  have "\<forall>x \<in> set (vector0[?i := vector0 ! ?i + real freq]). 0 \<le> x"
  proof (cases "?i < length vector0")
    case True
    then have "0 \<le> vector0 ! ?i + real freq" using Cons.prems by simp
    then show ?thesis
      using Cons.prems set_update_subset_insert[of vector0 ?i "vector0 ! ?i + real freq"]
      by auto
  next
    case False
    then show ?thesis using Cons.prems by (simp add: list_update_beyond)
  qed
  from Cons.IH[OF this] show ?case by (simp add: it)
qed


lemma simple_embedding_nonneg: "\<forall>x \<in> set (simple_embedding hash text). 0 \<le> x"
proof -
  let ?items = "fold (\<lambda>word freq. if length word > 2 then count_word word freq else freq)
                        (split (lower text)) []"
  let ?v = "fold (\<lambda>(word, freq) vector.
                   vector[nat (hash word mod int embedding_dimension) :=
                            vector ! nat (hash word mod int embedding_dimension) + real freq])
              ?items (replicate embedding_dimension 0)"
  have v: "\<forall>x \<in> set ?v. 0 \<le> x"
    by (rule scatter_nonneg) simp
  then have "\<forall>x \<in> set (map (\<lambda>x. x / linalg_norm ?v) ?v). 0 \<le> x"
    using linalg_norm_nonneg[of ?v] by auto
  with v show ?thesis
    unfolding simple_embedding_def Let_def by (simp only: split: if_splits) auto
qed



subsection \<open>The index of one small document\<close>

lemma sum_list_update_real:
  fixes xs :: "real list"
  shows "i < length xs \<Longrightarrow> sum_list (xs[i := a]) = sum_list xs - xs ! i + a"
  by (induction xs arbitrary: i) (auto split: nat.splits)

lemma dot_replicate_zero: "sum_list (map2 (*) (replicate n (0::real)) ys) = 0"
  by (induction n arbitrary: ys) (auto simp: zip_Cons1 split: list.splits)

lemma map2_update:
  "map2 f (xs[i := a]) ys = (map2 f xs ys)[i := f a (ys ! i)]"
  by (induction xs arbitrary: i ys) (auto simp: zip_Cons1 split: list.splits nat.splits)

lemma dot_unit:
  assumes "i < n" "length ys = n"
  shows "sum_list (map2 (*) ((replicate n (0::real))[i := 1]) ys) = ys ! i"
proof -
  have "sum_list (map2 (*) ((replicate n (0::real))[i := 1]) ys)
          = sum_list ((map2 (*) (replicate n 0) ys)[i := 1 * (ys ! i)])"
    by (simp only: map2_update)
  also have "\<dots> = sum_list (map2 (*) (replicate n 0) ys)
                      - (map2 (*) (replicate n 0) ys) ! i + 1 * (ys ! i)"
    using assms by (intro sum_list_update_real) simp
  also have "\<dots> = ys ! i"
    using assms by (simp add: dot_replicate_zero)
  finally show ?thesis .
qed

lemma norm_unit: "i < n \<Longrightarrow> linalg_norm ((replicate n 0)[i := 1]) = 1"
proof -
  assume i: "i < n"
  have "sum_list (map (\<lambda>v. v * v) ((replicate n (0::real))[i := 1]))
          = sum_list ((replicate n (0::real))[i := 1])"
    by (simp add: map_update)
  also have "\<dots> = 1" using i by (simp add: sum_list_update_real sum_list_replicate)
  finally show ?thesis by (simp add: linalg_norm_def)
qed

lemma bucket_less: "nat (h mod int embedding_dimension) < embedding_dimension"
  by (simp add: embedding_dimension_def)

lemma simple_embedding_one_word:
  assumes "split (lower text) = [w]" "length w > 2"
  shows "simple_embedding hash text =
           (replicate embedding_dimension 0)[nat (hash w mod int embedding_dimension) := 1]"
proof -
  let ?i = "nat (hash w mod int embedding_dimension)"
  let ?v = "(replicate embedding_dimension (0::real))[?i := 1]"
  have n: "linalg_norm ?v = 1" using bucket_less by (rule norm_unit)
  have "simple_embedding hash text = (if linalg_norm ?v > 0 then map (\<lambda>v. v / linalg_norm ?v) ?v else ?v)"
    using assms bucket_less[of "hash w"] by (simp add: simple_embedding_def Let_def)
  then show ?thesis by (simp add: n)
qed

lemma words_flu: "split (lower ''flu'') = [''flu'']"
  by (simp add: lower_def lower_char_def split_def is_space_def)

lemma embedding_flu:
  "simple_embedding hash ''flu'' =
     (replicate embedding_dimension 0)[nat (hash ''flu'' mod int embedding_dimension) := 1]"
  by (rule simple_embedding_one_word[OF words_flu]) simp

lemma cosine_unit:
  assumes "i < n" "j < n"
  shows "cosine_similarity ((replicate n 0)[i := 1]) ((replicate n 0)[j := 1])
           = (if i = j then 1 else 0)"
proof -
  have "sum_list (map2 (*) ((replicate n (0::real))[i := 1]) ((replicate n 0)[j := 1]))
          = ((replicate n 0)[j := 1]) ! i"
    using assms by (intro dot_unit) simp_all
  also have "\<dots> = (if i = j then 1 else 0)"
    using assms by (simp add: nth_list_update)
  finally show ?thesis
    using assms by (simp add: cosine_similarity_def Let_def norm_unit)
qed

lemma keyword_similarity_flu: "keyword_similarity ''flu'' ''flu'' = 1"
  by (simp add: keyword_similarity_def words_flu stop_words_def Let_def)

lemma category_similarity_no_category:
  "c_category chunk = None \<Longrightarrow> category_similarity query chunk = 0"
  by (simp add: category_similarity_def lower_def category_terms_def)

lemma chunk_fixed_size_flu:
  "chunk_fixed_size ''flu'' title =
     Some [\<lparr>c_content = ''flu'', c_title = title, c_chunk_type = ''fixed_size'',
            c_sentence_count = None, c_paragraph_index = None,
            c_start_pos = Some 0, c_end_pos = Some 512, c_category = None\<rparr>]"
  unfolding chunk_fixed_size_def
  by (subst chunk_fixed_size_loop.simps)
     (simp add: window_end_def chunk_size_def chunk_overlap_def strip_def is_space_def)

lemma str_nat_0: "str_nat 0 = ''0''"
  by code_simp

lemma add_document_flu:
  "add_document hash md5 ta tp ''Flu'' ''flu'' ''nutrition'' ''manual'' None new_knowledge_base
     = Some (take 12 (md5 ''Flu:flu''), flu_kb hash (take 12 (md5 ''Flu:flu'')) ta tp)"
  by (simp add: add_document_def generate_document_id_def chunk_document_def
        chunk_fixed_size_flu max_chunks_per_document_def generate_chunk_embeddings_def
        new_knowledge_base_def flu_kb_def flu_chunk_def split_def is_space_def Let_def
        str_nat_0 del: str_nat.simps)

lemma score_flu:
  "score_chunk (simple_embedding hash ''flu'') ''flu'' cf (flu_chunk d) (simple_embedding hash ''flu'')
     = \<lparr>s_chunk = flu_chunk d,
        s_similarity_score = (if cf \<noteq> None \<and> cf \<noteq> Some [] then 9 / 20 else 9 / 10),
        s_semantic_similarity = 1, s_keyword_similarity = 1, s_category_similarity = 0\<rparr>"
proof -
  have n: "c_category (flu_chunk d) = None" "c_content (flu_chunk d) = ''flu''"
    by (simp_all add: flu_chunk_def)
  show ?thesis
    by (auto simp: score_chunk_def Let_def embedding_flu cosine_unit bucket_less
          keyword_similarity_flu category_similarity_no_category n
          weight_semantic_def weight_keyword_def weight_category_def)
qed

lemma search_flu:
  "search_knowledge hash ''flu'' 5 cf (flu_kb hash d ta tp) =
     (if cf \<noteq> None \<and> cf \<noteq> Some [] then []
      else [\<lparr>r_content = ''flu'', r_title = ''Flu'', r_category = ''general'',
             r_chunk_type = ''fixed_size'', r_relevance_score = 9 / 10,
             r_semantic_score = 1, r_keyword_score = 1, r_category_score = 0,
             r_document_id = d, r_chunk_id = d @ ''_chunk_0''\<rparr>])"
proof -
  have c: "c_id (flu_chunk d) = d @ ''_chunk_0''" by (simp add: flu_chunk_def)
  have f: "format_result \<lparr>s_chunk = flu_chunk d, s_similarity_score = 9 / 10,
        s_semantic_similarity = 1, s_keyword_similarity = 1, s_category_similarity = 0\<rparr>
      = \<lparr>r_content = ''flu'', r_title = ''Flu'', r_category = ''general'',
             r_chunk_type = ''fixed_size'', r_relevance_score = 9 / 10,
             r_semantic_score = 1, r_keyword_score = 1, r_category_score = 0,
             r_document_id = d, r_chunk_id = d @ ''_chunk_0''\<rparr>"
    by (simp add: format_result_def flu_chunk_def)
  show ?thesis
    by (simp add: search_knowledge_def Let_def flu_kb_def c score_flu
          kb_relevance_threshold_def py_take_def f)
qed

text \<open>
  C3. The claim is that a chunk ingested from a document whose category equals the
  supplied filter is not penalised. \<open>add_document\<close> never copies the category of the
  document into its chunks, so \<open>search_knowledge\<close> compares the filter with a missing
  key. For the document "Flu" of category "nutrition" with content "flu" and the query
  "flu": without a filter the chunk is returned with score 9/10; with the filter
  "nutrition" its score is halved to 9/20, under the threshold, and nothing is returned.
\<close>

theorem category_filter_penalises_matching_chunk:
  "\<exists>doc_id kb.
     add_document hash md5 ta tp ''Flu'' ''flu'' ''nutrition'' ''manual'' None new_knowledge_base
       = Some (doc_id, kb)
     \<and> map d_category (kb_documents kb) = [''nutrition'']
     \<and> map c_category (kb_chunks kb) = [None]
     \<and> map r_relevance_score (search_knowledge hash ''flu'' 5 None kb) = [9 / 10]
     \<and> search_knowledge hash ''flu'' 5 (Some ''nutrition'') kb = []"
  by (simp add: add_document_flu search_flu) (simp add: flu_kb_def flu_chunk_def)

subsection \<open>Scores of search results\<close>












subsection \<open>The embedding and the hash of strings\<close>











subsection \<open>Chunks and the category of their document\<close>

lemma sentence_loop_no_category:
  "\<forall>c \<in> set (fst acc). c_category c = None \<Longrightarrow>
   \<forall>c \<in> set (fst (sentence_loop title type_many type_one sentences acc)). c_category c = None"
  by (induction title type_many type_one sentences acc rule: sentence_loop.induct) auto

lemma chunk_sentences_no_category:
  assumes "\<forall>c \<in> set chunks. c_category c = None"
  shows "\<forall>c \<in> set (chunk_sentences title type_many type_one chunks paragraph). c_category c = None"
proof -
  let ?r = "sentence_loop title type_many type_one
              (map strip (filter (\<lambda>s. strip s \<noteq> []) (split_sentences paragraph))) (chunks, [], 0)"
  have "\<forall>c \<in> set (fst ?r). c_category c = None"
    by (rule sentence_loop_no_category) (simp add: assms)
  then show ?thesis
    unfolding chunk_sentences_def Let_def by (cases ?r) auto
qed

lemma fold_invariant:
  assumes "P acc" "\<And>x a. P a \<Longrightarrow> P (f x a)"
  shows "P (fold f xs acc)"
  using assms(1) by (induction xs arbitrary: acc) (auto intro: assms(2))

lemma chunk_medical_no_category:
  "\<forall>c \<in> set (chunk_medical_content content title). c_category c = None"
  unfolding chunk_medical_content_def
  by (rule fold_invariant) (auto dest: chunk_sentences_no_category[rule_format, rotated])

lemma split_long_paragraph_no_category:
  "\<forall>c \<in> set (split_long_paragraph paragraph title). c_category c = None"
  unfolding split_long_paragraph_def by (rule chunk_sentences_no_category) simp

lemma chunk_general_no_category:
  "\<forall>c \<in> set (chunk_general_content content title). c_category c = None"
  unfolding chunk_general_content_def
  by (rule fold_invariant)
     (auto simp: split_long_paragraph_no_category[rule_format] split: if_splits)

lemma chunk_fixed_size_loop_no_category:
  assumes "chunk_fixed_size_loop content title start chunks = Some result"
    and "\<forall>c \<in> set chunks. c_category c = None"
  shows "\<forall>c \<in> set result. c_category c = None"
  using assms
proof (induction "length content - start" arbitrary: start chunks rule: less_induct)
  case less
  show ?case
  proof (cases "start < length content")
    case False
    with less.prems show ?thesis
      by (subst (asm) chunk_fixed_size_loop.simps) simp
  next
    case True
    let ?end = "window_end content start"
    let ?cc = "strip (take (?end - start) (drop start content))"
    let ?chunks = "if ?cc \<noteq> []
                   then chunks @ [\<lparr>c_content = ?cc, c_title = title,
                                    c_chunk_type = ''fixed_size'',
                                    c_sentence_count = None, c_paragraph_index = None,
                                    c_start_pos = Some start, c_end_pos = Some ?end,
                                    c_category = None\<rparr>]
                   else chunks"
    let ?start' = "?end - chunk_overlap"
    have inv: "\<forall>c \<in> set ?chunks. c_category c = None" using less.prems(2) by simp
    have step: "chunk_fixed_size_loop content title start chunks =
            (if ?start' \<ge> length content then Some ?chunks
             else chunk_fixed_size_loop content title ?start' ?chunks)"
      using True by (subst chunk_fixed_size_loop.simps) (simp add: Let_def)
    show ?thesis
    proof (cases "?start' \<ge> length content")
      case True
      with step less.prems(1) inv show ?thesis by simp
    next
      case False
      with start_increases[of start content] \<open>start < length content\<close>
      have m: "length content - ?start' < length content - start" by linarith
      from step False less.prems(1)
      have "chunk_fixed_size_loop content title ?start' ?chunks = Some result" by simp
      from less.hyps[OF m this inv] show ?thesis .
    qed
  qed
qed

lemma chunk_document_no_category:
  assumes "chunk_document document = Some cs"
  shows "\<forall>c \<in> set cs. c_category c = None"
proof -
  from assms obtain all where cs: "cs = take max_chunks_per_document all"
    and all: "\<forall>c \<in> set all. c_category c = None"
    unfolding chunk_document_def Let_def chunk_fixed_size_def
    using chunk_medical_no_category chunk_general_no_category
      chunk_fixed_size_loop_no_category[of _ _ 0 "[]"]
    by (auto split: if_splits)
  then show ?thesis by (auto dest: in_set_takeD)
qed

lemma ingested_chunks_have_no_category:
  assumes "add_document hash md5 ta tp title content category source tags kb = Some (doc_id, kb')"
    and "c \<in> set (kb_chunks kb')"
  shows "c \<in> set (kb_chunks kb) \<or> c_category c = None"
proof -
  let ?doc = "\<lparr>d_id = generate_document_id md5 title content, d_title = title,
               d_content = content, d_category = category, d_source = source,
               d_tags = (case tags of None \<Rightarrow> [] | Some ts \<Rightarrow> ts),
               d_added_at = ta, d_word_count = length (split content),
               d_char_count = length content\<rparr>"
  from assms(1) obtain cs where cs: "chunk_document ?doc = Some cs"
    unfolding add_document_def Let_def by (auto split: option.splits)
  with assms(1) have "kb_chunks kb' = kb_chunks kb @
      map (\<lambda>(i, chunk).
              \<lparr>c_content = c_content chunk, c_title = c_title chunk,
               c_chunk_type = c_chunk_type chunk,
               c_sentence_count = c_sentence_count chunk,
               c_paragraph_index = c_paragraph_index chunk,
               c_start_pos = c_start_pos chunk,
               c_end_pos = c_end_pos chunk,
               c_category = c_category chunk,
               c_id = generate_document_id md5 title content @ ''_chunk_'' @ str_nat i,
               c_document_id = generate_document_id md5 title content,
               c_chunk_index = i\<rparr>) (enumerate 0 cs)"
    unfolding add_document_def Let_def by auto
  with assms(2) chunk_document_no_category[OF cs] show ?thesis
    by (auto simp: in_set_enumerate_eq)
qed

lemma penalty_without_category:
  assumes "c_category chunk = None" "cf \<noteq> []"
  shows "s_similarity_score (score_chunk qe query (Some cf) chunk ce)
           = s_similarity_score (score_chunk qe query None chunk ce) * (5 / 10)"
  using assms unfolding score_chunk_def Let_def by simp

subsection \<open>Ingest\<close>

lemma fold_update_other:
  "k \<notin> (\<lambda>z. c_id (fst z)) ` set zs \<Longrightarrow>
   fold (\<lambda>(c, e) m. m(c_id c \<mapsto> e)) zs m k = m k"
  by (induction zs arbitrary: m) auto

lemma fold_update_key:
  "k \<in> (\<lambda>z. c_id (fst z)) ` set zs \<Longrightarrow>
   \<exists>v \<in> snd ` set zs. fold (\<lambda>(c, e) m. m(c_id c \<mapsto> e)) zs m k = Some v"
proof (induction zs arbitrary: m)
  case Nil
  then show ?case by simp
next
  case (Cons z zs)
  obtain c e where z: "z = (c, e)" by (cases z)
  have unfold: "fold (\<lambda>(c, e) m. m(c_id c \<mapsto> e)) (z # zs) m k
                  = fold (\<lambda>(c, e) m. m(c_id c \<mapsto> e)) zs (m(c_id c \<mapsto> e)) k"
    by (simp add: z)
  show ?case
  proof (cases "k \<in> (\<lambda>z. c_id (fst z)) ` set zs")
    case True
    from Cons.IH[OF this, of "m(c_id c \<mapsto> e)"] obtain v where
      "v \<in> snd ` set zs" "fold (\<lambda>(c, e) m. m(c_id c \<mapsto> e)) zs (m(c_id c \<mapsto> e)) k = Some v"
      by blast
    then have "v \<in> snd ` set (z # zs)"
      "fold (\<lambda>(c, e) m. m(c_id c \<mapsto> e)) (z # zs) m k = Some v"
      unfolding unfold by simp_all
    then show ?thesis by blast
  next
    case False
    with Cons.prems have k: "k = c_id c" by (simp add: z)
    have "fold (\<lambda>(c, e) m. m(c_id c \<mapsto> e)) zs (m(c_id c \<mapsto> e)) k = (m(c_id c \<mapsto> e)) k"
      using False by (rule fold_update_other)
    then have "fold (\<lambda>(c, e) m. m(c_id c \<mapsto> e)) (z # zs) m k = Some e"
      unfolding unfold by (simp add: k)
    moreover have "e \<in> snd ` set (z # zs)" by (simp add: z)
    ultimately show ?thesis by blast
  qed
qed

lemma chunk_document_returns: "\<exists>cs. chunk_document document = Some cs"
  using chunk_fixed_size_loop_returns[of "d_content document" "d_title document" 0 "[]"]
  unfolding chunk_document_def Let_def chunk_fixed_size_def by auto

lemma add_document_returns:
  "\<exists>doc_id kb'. add_document hash md5 ta tp title content category source tags kb
                   = Some (doc_id, kb')"
proof -
  let ?doc = "\<lparr>d_id = generate_document_id md5 title content, d_title = title,
               d_content = content, d_category = category, d_source = source,
               d_tags = (case tags of None \<Rightarrow> [] | Some ts \<Rightarrow> ts),
               d_added_at = ta, d_word_count = length (split content),
               d_char_count = length content\<rparr>"
  from chunk_document_returns[of ?doc] obtain cs where "chunk_document ?doc = Some cs" ..
  then show ?thesis unfolding add_document_def Let_def by simp
qed

lemma add_document_nonnegative_index:
  assumes "add_document hash md5 ta tp title content category source tags kb = Some (doc_id, kb')"
    and "nonnegative_index kb"
  shows "nonnegative_index kb'"
proof -
  let ?doc = "\<lparr>d_id = generate_document_id md5 title content, d_title = title,
               d_content = content, d_category = category, d_source = source,
               d_tags = (case tags of None \<Rightarrow> [] | Some ts \<Rightarrow> ts),
               d_added_at = ta, d_word_count = length (split content),
               d_char_count = length content\<rparr>"
  from assms(1) obtain cs where cs: "chunk_document ?doc = Some cs"
    unfolding add_document_def Let_def by (auto split: option.splits)
  define stored where "stored = map (\<lambda>(i, chunk).
              \<lparr>c_content = c_content chunk, c_title = c_title chunk,
               c_chunk_type = c_chunk_type chunk,
               c_sentence_count = c_sentence_count chunk,
               c_paragraph_index = c_paragraph_index chunk,
               c_start_pos = c_start_pos chunk,
               c_end_pos = c_end_pos chunk,
               c_category = c_category chunk,
               c_id = generate_document_id md5 title content @ ''_chunk_'' @ str_nat i,
               c_document_id = generate_document_id md5 title content,
               c_chunk_index = i\<rparr>) (enumerate 0 cs)"
  define embs where "embs = generate_chunk_embeddings hash cs"
  define zs where "zs = zip stored embs"
  from assms(1) cs have ch: "kb_chunks kb' = kb_chunks kb @ stored"
    and em: "kb_embeddings kb' = fold (\<lambda>(c, e) m. m(c_id c \<mapsto> e)) zs (kb_embeddings kb)"
    unfolding add_document_def Let_def stored_def embs_def zs_def by auto
  have len: "length stored = length embs"
    by (simp add: stored_def embs_def generate_chunk_embeddings_def)
  have new: "\<forall>v \<in> snd ` set zs. \<forall>x \<in> set v. 0 \<le> x"
  proof
    fix v assume "v \<in> snd ` set zs"
    then have "v \<in> set embs" unfolding zs_def by (auto dest: set_zip_rightD)
    then show "\<forall>x \<in> set v. 0 \<le> x"
      unfolding embs_def generate_chunk_embeddings_def
      using simple_embedding_nonneg by auto
  qed
  have keys: "(\<lambda>z. c_id (fst z)) ` set zs = c_id ` set stored"
    using len unfolding zs_def by (metis image_image map_fst_zip set_map)
  have "\<forall>c \<in> set (kb_chunks kb'). \<forall>e. kb_embeddings kb' (c_id c) = Some e \<longrightarrow> (\<forall>x \<in> set e. 0 \<le> x)"
  proof (intro ballI allI impI)
    fix c e x
    assume c: "c \<in> set (kb_chunks kb')" and e: "kb_embeddings kb' (c_id c) = Some e"
      and x: "x \<in> set e"
    show "0 \<le> x"
    proof (cases "c_id c \<in> (\<lambda>z. c_id (fst z)) ` set zs")
      case True
      from fold_update_key[OF True, of "kb_embeddings kb"] e em
      have "e \<in> snd ` set zs" by auto
      with new x show ?thesis by blast
    next
      case False
      with keys c ch have old: "c \<in> set (kb_chunks kb)" by auto
      from fold_update_other[OF False, of "kb_embeddings kb"] e em
      have "kb_embeddings kb (c_id c) = Some e" by simp
      with old assms(2) x show ?thesis
        by (auto simp: nonnegative_index_def list_all_iff)
    qed
  qed
  then show ?thesis
    by (auto simp: nonnegative_index_def list_all_iff split: option.splits)
qed

end
